theory Spec2Isabelle
  imports Complex_Main
begin

section \<open>Python values, exceptions and sequence operations\<close>

text \<open>
  The training driver \<^verbatim>\<open>review/train.py\<close> is a Python program. Every exception it can
  raise on the paths studied here is a value of \<open>error\<close>; a routine that may raise returns
  \<open>error + 'a\<close>, with \<open>Inl\<close> for the exception. Python floats are idealised as real
  numbers: rounding, overflow and NaN are outside this development.
\<close>

datatype error =
  ZeroDivisionError
  | FileNotFoundError
  | AttributeError
  | AssertionError
  | RuntimeError
  | IndexError
  | TypeError
  | ValueError

text \<open>Sequencing of two steps, the second of which runs only when the first returns.\<close>

definition and_then :: "error + 'a \<Rightarrow> ('a \<Rightarrow> error + 'b) \<Rightarrow> error + 'b" where
  "and_then m f = (case m of Inl e \<Rightarrow> Inl e | Inr x \<Rightarrow> f x)"

text \<open>\<^verbatim>\<open>range(n)\<close> for an integer \<open>n\<close>: empty when \<open>n \<le> 0\<close>.\<close>

definition py_range :: "int \<Rightarrow> int list" where
  "py_range n = [0..n - 1]"

text \<open>
  \<^verbatim>\<open>xs[lo:hi]\<close>: a negative bound counts from the end, and both bounds are clamped to
  the list.
\<close>

definition py_slice :: "'a list \<Rightarrow> int \<Rightarrow> int \<Rightarrow> 'a list" where
  "py_slice xs lo hi =
     (let n = int (length xs);
          l = (if lo < 0 then max 0 (n + lo) else min n lo);
          h = (if hi < 0 then max 0 (n + hi) else min n hi)
      in take (nat (h - l)) (drop (nat l) xs))"

text \<open>\<^verbatim>\<open>a // b\<close> on integers: floor division, ZeroDivisionError when \<open>b = 0\<close>.\<close>

definition py_floordiv :: "int \<Rightarrow> int \<Rightarrow> error + int" where
  "py_floordiv a b = (if b = 0 then Inl ZeroDivisionError else Inr (a div b))"

text \<open>
  \<^verbatim>\<open>x ** k\<close> for a float \<open>x\<close> and an integer \<open>k\<close>: zero to a negative power raises
  ZeroDivisionError.
\<close>

definition py_pow :: "real \<Rightarrow> int \<Rightarrow> error + real" where
  "py_pow x k = (if x = 0 \<and> k < 0 then Inl ZeroDivisionError else Inr (power_int x k))"

section \<open>batchify\<close>

text \<open>
  \<^verbatim>\<open>
  def batchify(pairs, bsz, vocab, evaluation=False):
      nbatch = len(pairs) // bsz
      data = []
      for i in range(nbatch):
          data.append(batch2TrainData(vocab, pairs[i * bsz: i * bsz + bsz], evaluation))
      return data
  \<close>
  \<^verbatim>\<open>batch2TrainData\<close> comes from \<^verbatim>\<open>util.py\<close>, which is not part of the sources at hand; it
  is the parameter \<open>b2t\<close>.
\<close>

definition batchify ::
  "('v \<Rightarrow> 'p list \<Rightarrow> bool \<Rightarrow> 'b) \<Rightarrow> 'p list \<Rightarrow> int \<Rightarrow> 'v \<Rightarrow> bool \<Rightarrow> error + 'b list" where
  "batchify b2t pairs bsz vocab evaluation =
     and_then (py_floordiv (int (length pairs)) bsz) (\<lambda>nbatch.
       Inr (fold (\<lambda>i data. data @ [b2t vocab (py_slice pairs (i * bsz) (i * bsz + bsz)) evaluation])
              (py_range nbatch) []))"

section \<open>adjust_learning_rate\<close>

text \<open>
  An optimizer holds a list of parameter groups; a group names the parameters it updates
  (by their position in the owning module's parameter list) and carries its learning rate.
  \<^verbatim>\<open>
  def adjust_learning_rate(optimizer, epoch, learning_rate, lr_decay_epoch, lr_decay_ratio):
      lr = learning_rate * (lr_decay_ratio ** (epoch // lr_decay_epoch))
      for param_group in optimizer.param_groups:
          param_group['lr'] = lr
  \<close>
\<close>

record param_group =
  params :: "nat list"
  lr :: real

record 'os optimizer =
  param_groups :: "param_group list"
  opt_state :: 'os

definition adjust_learning_rate ::
  "'os optimizer \<Rightarrow> int \<Rightarrow> real \<Rightarrow> int \<Rightarrow> real \<Rightarrow> error + 'os optimizer" where
  "adjust_learning_rate optimizer epoch learning_rate lr_decay_epoch lr_decay_ratio =
     and_then (py_floordiv epoch lr_decay_epoch) (\<lambda>k.
     and_then (py_pow lr_decay_ratio k) (\<lambda>p.
       let new_lr = learning_rate * p
       in Inr (optimizer\<lparr>param_groups :=
                 map (\<lambda>g. g\<lparr>lr := new_lr\<rparr>) (param_groups optimizer)\<rparr>)))"

section \<open>Tensors, parameters, modules and optimizers\<close>

text \<open>
  A tensor is its shape and its elements in row-major order. A parameter is a tensor with
  the flag \<^verbatim>\<open>requires_grad\<close> and the gradient \<^verbatim>\<open>grad\<close>, which is \<^verbatim>\<open>None\<close> until a backward
  pass has reached the parameter.
\<close>

datatype tensor = Tensor (shape: "nat list") (elems: "real list")

definition dim :: "tensor \<Rightarrow> nat" where
  "dim t = length (shape t)"

text \<open>\<^verbatim>\<open>torch.eye(n)\<close>, \<^verbatim>\<open>torch.zeros(r, c)\<close>: a negative size is refused.\<close>

definition torch_eye :: "int \<Rightarrow> error + tensor" where
  "torch_eye n =
     (if n < 0 then Inl RuntimeError
      else Inr (Tensor [nat n, nat n]
             (concat (map (\<lambda>i. map (\<lambda>j. if i = j then 1 else 0) [0..<nat n]) [0..<nat n]))))"

definition torch_zeros :: "int \<Rightarrow> int \<Rightarrow> error + tensor" where
  "torch_zeros r c =
     (if r < 0 \<or> c < 0 then Inl RuntimeError
      else Inr (Tensor [nat r, nat c] (replicate (nat r * nat c) 0)))"

text \<open>
  \<^verbatim>\<open>torch.cat((a, b), dim=1)\<close> on two matrices with the same number of rows: row \<open>i\<close> of
  the result is row \<open>i\<close> of \<open>a\<close> followed by row \<open>i\<close> of \<open>b\<close>.
\<close>

definition torch_cat1 :: "tensor \<Rightarrow> tensor \<Rightarrow> error + tensor" where
  "torch_cat1 a b =
     (case (shape a, shape b) of
        ([r, c], [r', c']) \<Rightarrow>
          if r = r'
          then Inr (Tensor [r, c + c']
                 (concat (map (\<lambda>i. take c (drop (i * c) (elems a)) @ take c' (drop (i * c') (elems b)))
                            [0..<r])))
          else Inl RuntimeError
      | _ \<Rightarrow> Inl RuntimeError)"

record parameter =
  data :: tensor
  requires_grad :: bool
  grad :: "tensor option"

record embedding =
  num_embeddings :: nat
  embedding_dim :: nat
  weight :: parameter

text \<open>
  \<^verbatim>\<open>nn.Embedding(num, dim)\<close> draws its weights at random; the drawn values are the
  argument \<open>w\<close>.
\<close>

definition nn_Embedding :: "int \<Rightarrow> int \<Rightarrow> real list \<Rightarrow> error + embedding" where
  "nn_Embedding num d w =
     (if num < 0 \<or> d < 0 \<or> length w \<noteq> nat num * nat d then Inl RuntimeError
      else Inr \<lparr>num_embeddings = nat num, embedding_dim = nat d,
                weight = \<lparr>data = Tensor [nat num, nat d] w, requires_grad = True, grad = None\<rparr>\<rparr>)"

text \<open>
  \<^verbatim>\<open>
  def from_pretrained(embeddings, freeze=True):
      assert embeddings.dim() == 2, 'Embeddings parameter is expected to be 2-dimensional'
      rows, cols = embeddings.shape
      embedding = torch.nn.Embedding(num_embeddings=rows, embedding_dim=cols)
      embedding.weight = torch.nn.Parameter(embeddings)
      embedding.weight.requires_grad = not freeze
      return embedding
  \<close>
\<close>

definition from_pretrained :: "tensor \<Rightarrow> bool \<Rightarrow> error + embedding" where
  "from_pretrained embeddings freeze =
     (if dim embeddings \<noteq> 2 then Inl AssertionError
      else
        let rows = shape embeddings ! 0; cols = shape embeddings ! 1
        in Inr \<lparr>num_embeddings = rows, embedding_dim = cols,
                  weight = \<lparr>data = embeddings, requires_grad = \<not> freeze, grad = None\<rparr>\<rparr>)"

text \<open>
  A module is the list of its parameters (what \<^verbatim>\<open>parameters()\<close> yields, in order), its
  training flag (set by \<^verbatim>\<open>train()\<close>, cleared by \<^verbatim>\<open>eval()\<close>) and its attribute
  \<^verbatim>\<open>n_layers\<close>.
\<close>

record module =
  mparams :: "parameter list"
  training :: bool
  mod_n_layers :: int

definition module_train :: "module \<Rightarrow> module" where
  "module_train m = m\<lparr>training := True\<rparr>"

definition module_eval :: "module \<Rightarrow> module" where
  "module_eval m = m\<lparr>training := False\<rparr>"

text \<open>\<^verbatim>\<open>state_dict()\<close> of a network: the values of its parameters.\<close>

definition state_dict :: "module \<Rightarrow> tensor list" where
  "state_dict m = map data (mparams m)"

text \<open>
  \<^verbatim>\<open>optim.Adam(filter(lambda p: p.requires_grad, m.parameters()), lr=learning_rate)\<close>: one
  parameter group holding the parameters that pass the filter. Adam refuses an empty
  parameter list. \<open>s0\<close> is Adam's initial state.
\<close>

definition optim_Adam :: "'os \<Rightarrow> module \<Rightarrow> real \<Rightarrow> error + 'os optimizer" where
  "optim_Adam s0 m learning_rate =
     (let ps = filter (\<lambda>i. requires_grad (mparams m ! i)) [0..<length (mparams m)]
      in if ps = [] then Inl ValueError
         else Inr \<lparr>param_groups = [\<lparr>params = ps, lr = learning_rate\<rparr>], opt_state = s0\<rparr>)"

text \<open>
  \<^verbatim>\<open>optimizer.zero_grad()\<close>: the gradient of every parameter of every group is set to
  zero where there is one.
\<close>

definition zero_like :: "tensor \<Rightarrow> tensor" where
  "zero_like t = Tensor (shape t) (map (\<lambda>_. 0) (elems t))"

definition zero_grad :: "'os optimizer \<Rightarrow> module \<Rightarrow> module" where
  "zero_grad opt m =
     m\<lparr>mparams :=
         fold (\<lambda>i ps. if i < length ps
                       then ps[i := (ps ! i)\<lparr>grad := map_option zero_like (grad (ps ! i))\<rparr>]
                       else ps)
           (concat (map params (param_groups opt))) (mparams m)\<rparr>"

text \<open>
  \<^verbatim>\<open>loss.backward()\<close>: autograd adds the gradient of the loss to the \<^verbatim>\<open>grad\<close> of every
  parameter with \<^verbatim>\<open>requires_grad\<close> that the loss depends on; \<open>g i\<close> is that gradient for
  parameter \<open>i\<close> of the module, \<open>None\<close> when the loss does not depend on it.
\<close>

definition tensor_add :: "tensor \<Rightarrow> tensor \<Rightarrow> tensor" where
  "tensor_add a b = Tensor (shape a) (map2 (+) (elems a) (elems b))"

definition accumulate_grad :: "(nat \<Rightarrow> tensor option) \<Rightarrow> module \<Rightarrow> module" where
  "accumulate_grad g m =
     m\<lparr>mparams :=
         map (\<lambda>(i, p).
                if requires_grad p
                then (case g i of
                        None \<Rightarrow> p
                      | Some t \<Rightarrow>
                          p\<lparr>grad := Some (case grad p of None \<Rightarrow> t | Some t0 \<Rightarrow> tensor_add t0 t)\<rparr>)
                else p)
           (enumerate 0 (mparams m))\<rparr>"

text \<open>
  \<^verbatim>\<open>torch.nn.utils.clip_grad_norm(parameters, max_norm)\<close> with the 2-norm: of the
  parameters it is given, those with a gradient count. Their gradients are scaled in place
  by \<^verbatim>\<open>max_norm / (total_norm + 1e-6)\<close> when that coefficient is below 1; the total norm
  before scaling is returned. \<open>sel\<close> is the filter the caller puts on the parameters.
\<close>

definition tensor_norm :: "tensor \<Rightarrow> real" where
  "tensor_norm t = sqrt (\<Sum>x\<leftarrow>elems t. x\<^sup>2)"

definition tensor_scale :: "real \<Rightarrow> tensor \<Rightarrow> tensor" where
  "tensor_scale c t = Tensor (shape t) (map (\<lambda>x. x * c) (elems t))"

definition sq_sum :: "parameter list \<Rightarrow> real" where
  "sq_sum ps = (\<Sum>p\<leftarrow>ps. case grad p of None \<Rightarrow> 0 | Some g \<Rightarrow> (tensor_norm g)\<^sup>2)"

definition total_norm :: "parameter list \<Rightarrow> real" where
  "total_norm ps = sqrt (sq_sum ps)"

definition clip_grad_norm :: "(parameter \<Rightarrow> bool) \<Rightarrow> module \<Rightarrow> real \<Rightarrow> real \<times> module" where
  "clip_grad_norm sel m max_norm =
     (let parameters = filter (\<lambda>p. grad p \<noteq> None) (filter sel (mparams m));
          tn = total_norm parameters;
          clip_coef = max_norm / (tn + 1 / 1000000)
      in if clip_coef < 1
         then (tn, m\<lparr>mparams :=
                       map (\<lambda>p. if sel p \<and> grad p \<noteq> None
                                 then p\<lparr>grad := map_option (tensor_scale clip_coef) (grad p)\<rparr>
                                 else p)
                         (mparams m)\<rparr>)
         else (tn, m))"

text \<open>
  \<^verbatim>\<open>optimizer.step()\<close>: every parameter of every group that has a gradient is updated by
  Adam's rule \<open>upd\<close>, which reads the group's learning rate, the optimizer's state, the
  parameter and its gradient, and gives the new value and the new state. A parameter
  without a gradient is skipped.
\<close>

fun step_params ::
  "(real \<Rightarrow> 'os \<Rightarrow> nat \<Rightarrow> tensor \<Rightarrow> tensor \<Rightarrow> tensor \<times> 'os) \<Rightarrow> real \<Rightarrow> nat list \<Rightarrow>
   parameter list \<times> 'os \<Rightarrow> parameter list \<times> 'os" where
  "step_params upd rate [] (ps, s) = (ps, s)"
| "step_params upd rate (i # is) (ps, s) =
     (if i < length ps
      then (case grad (ps ! i) of
              None \<Rightarrow> step_params upd rate is (ps, s)
            | Some g \<Rightarrow>
                (case upd rate s i (data (ps ! i)) g of
                   (d, s') \<Rightarrow> step_params upd rate is (ps[i := (ps ! i)\<lparr>data := d\<rparr>], s')))
      else step_params upd rate is (ps, s))"

definition optimizer_step ::
  "(real \<Rightarrow> 'os \<Rightarrow> nat \<Rightarrow> tensor \<Rightarrow> tensor \<Rightarrow> tensor \<times> 'os) \<Rightarrow> 'os optimizer \<Rightarrow> module \<Rightarrow>
   module \<times> 'os optimizer" where
  "optimizer_step upd opt m =
     (case fold (\<lambda>g acc. step_params upd (lr g) (params g) acc) (param_groups opt)
             (mparams m, opt_state opt) of
        (ps, s) \<Rightarrow> (m\<lparr>mparams := ps\<rparr>, opt\<lparr>opt_state := s\<rparr>))"

text \<open>
  An optimizer fits a network when every parameter its groups name is a trainable
  parameter of the network.
\<close>

definition fits :: "'os optimizer \<Rightarrow> module \<Rightarrow> bool" where
  "fits opt m =
     list_all (\<lambda>g. list_all (\<lambda>i. i < length (mparams m) \<and> requires_grad (mparams m ! i)) (params g))
       (param_groups opt)"

section \<open>The networks and the numerical environment\<close>

text \<open>
  A batch is the tuple \<^verbatim>\<open>(attr_input, topic_input, sketch_output, review_input,
  review_output, mask)\<close> that \<^verbatim>\<open>batch2TrainData\<close> builds; \<open>'a\<close> is the type of its tensors and
  of the activations of the networks. The last component is written \<open>loss_mask\<close> below.
\<close>

type_synonym 'a batch = "'a \<times> 'a \<times> 'a \<times> 'a \<times> 'a \<times> 'a"

text \<open>
  The forward passes of the three networks (\<^verbatim>\<open>model.py\<close>), the loss
  (\<^verbatim>\<open>masked_cross_entropy.py\<close>), the gradients autograd computes and Adam's update rule are
  not part of \<^verbatim>\<open>train.py\<close>: they are the fields of the environment. A forward pass reads
  the values of the network's parameters and its training flag.
  \<open>autograd enc bi dec batch k i\<close> is the gradient of the batch's loss in parameter \<open>i\<close> of
  network \<open>k\<close> (0 the attribute encoder, 1 the sketch encoder, 2 the review decoder).
\<close>

record ('a, 'os) env =
  encoder_forward :: "tensor list \<Rightarrow> bool \<Rightarrow> 'a \<Rightarrow> 'a \<times> 'a list"
  birnn_forward :: "tensor list \<Rightarrow> bool \<Rightarrow> 'a \<Rightarrow> 'a \<times> 'a"
  decoder_forward ::
    "tensor list \<Rightarrow> bool \<Rightarrow> 'a \<Rightarrow> 'a list \<Rightarrow> 'a \<Rightarrow> 'a \<Rightarrow> 'a \<Rightarrow> 'a \<Rightarrow> 'a \<times> 'a list \<times> 'a"
  masked_cross_entropy :: "'a \<Rightarrow> 'a \<Rightarrow> 'a \<Rightarrow> real"
  autograd :: "module \<Rightarrow> module \<Rightarrow> module \<Rightarrow> 'a batch \<Rightarrow> nat \<Rightarrow> nat \<Rightarrow> tensor option"
  adam :: "real \<Rightarrow> 'os \<Rightarrow> nat \<Rightarrow> tensor \<Rightarrow> tensor \<Rightarrow> tensor \<times> 'os"
  adam_init :: 'os

text \<open>The three networks and their optimizers: the objects \<^verbatim>\<open>train\<close> mutates.\<close>

record 'os nets =
  encoder :: module
  birnn_encoder :: module
  review_decoder :: module
  encoder_optimizer :: "'os optimizer"
  birnn_encoder_optimizer :: "'os optimizer"
  review_decoder_optimizer :: "'os optimizer"

section \<open>train and evaluate\<close>

text \<open>
  \<^verbatim>\<open>train\<close> (lines 45 to 91) takes the six tensors of a batch, the three networks and the
  three optimizers; here the batch is one argument and the six objects are the record
  \<open>nets\<close>, returned as the call leaves them. Moving a tensor to the GPU (\<^verbatim>\<open>.cuda()\<close>) does
  not change its value and is left out. The steps, in the order of the source: zero the
  gradients; forward passes and loss; \<^verbatim>\<open>loss.backward()\<close>; the three calls of
  \<^verbatim>\<open>clip_grad_norm\<close> with \<^verbatim>\<open>clip = 5.0\<close> on the parameters with \<^verbatim>\<open>requires_grad\<close>; the
  three optimizer steps; the mean of \<^verbatim>\<open>print_losses\<close>, read before the backward pass.
\<close>

definition train :: "('a, 'os) env \<Rightarrow> 'a batch \<Rightarrow> 'os nets \<Rightarrow> real \<times> 'os nets" where
  "train env batch nets =
     (case batch of (attr_input, topic_input, sketch_output, review_input, review_output, loss_mask) \<Rightarrow>
      let enc0 = zero_grad (encoder_optimizer nets) (encoder nets);
          bi0 = zero_grad (birnn_encoder_optimizer nets) (birnn_encoder nets);
          dec0 = zero_grad (review_decoder_optimizer nets) (review_decoder nets);
          loss0 = 0;
          print_losses0 = [];
          (encoder_out, encoder_hidden) = encoder_forward env (state_dict enc0) (training enc0) attr_input;
          review_decoder_input = review_input;
          review_decoder_hidden = py_slice encoder_hidden 0 (mod_n_layers dec0);
          (sketch_birnn_output, _) = birnn_forward env (state_dict bi0) (training bi0) sketch_output;
          (review_decoder_output, _, _) =
             decoder_forward env (state_dict dec0) (training dec0) review_decoder_input
               review_decoder_hidden
               sketch_birnn_output topic_input sketch_output encoder_out;
          mask_loss = masked_cross_entropy env review_decoder_output review_output loss_mask;
          loss = loss0 + mask_loss;
          print_losses = print_losses0 @ [mask_loss];
          g = autograd env enc0 bi0 dec0 batch;
          enc1 = accumulate_grad (g 0) enc0;
          bi1 = accumulate_grad (g 1) bi0;
          dec1 = accumulate_grad (g 2) dec0;
          clip = 5;
          (ec, enc2) = clip_grad_norm requires_grad enc1 clip;
          (bc, bi2) = clip_grad_norm requires_grad bi1 clip;
          (dc, dec2) = clip_grad_norm requires_grad dec1 clip;
          (enc3, eopt) = optimizer_step (adam env) (encoder_optimizer nets) enc2;
          (bi3, bopt) = optimizer_step (adam env) (birnn_encoder_optimizer nets) bi2;
          (dec3, dopt) = optimizer_step (adam env) (review_decoder_optimizer nets) dec2
      in (sum_list print_losses / real (length print_losses),
          \<lparr>encoder = enc3, birnn_encoder = bi3, review_decoder = dec3,
           encoder_optimizer = eopt, birnn_encoder_optimizer = bopt,
           review_decoder_optimizer = dopt\<rparr>))"

text \<open>
  The state of \<^verbatim>\<open>train\<close> between the last \<^verbatim>\<open>clip_grad_norm\<close> (line 85) and the first
  optimizer step (line 87): the three networks with their clipped gradients.
\<close>

definition train_clipped :: "('a, 'os) env \<Rightarrow> 'a batch \<Rightarrow> 'os nets \<Rightarrow> module \<times> module \<times> module" where
  "train_clipped env batch nets =
     (let enc0 = zero_grad (encoder_optimizer nets) (encoder nets);
          bi0 = zero_grad (birnn_encoder_optimizer nets) (birnn_encoder nets);
          dec0 = zero_grad (review_decoder_optimizer nets) (review_decoder nets);
          g = autograd env enc0 bi0 dec0 batch;
          clip = 5
      in (snd (clip_grad_norm requires_grad (accumulate_grad (g 0) enc0) clip),
          snd (clip_grad_norm requires_grad (accumulate_grad (g 1) bi0) clip),
          snd (clip_grad_norm requires_grad (accumulate_grad (g 2) dec0) clip)))"

text \<open>
  \<^verbatim>\<open>evaluate\<close> (lines 93 to 128) puts the three networks in inference mode, runs the
  forward passes and returns the mean of \<^verbatim>\<open>print_losses\<close>. It binds
  \<^verbatim>\<open>review_decoder_input\<close> and then hands \<^verbatim>\<open>review_input\<close> to the decoder. The networks
  stay in inference mode when it returns.
\<close>

definition evaluate :: "('a, 'os) env \<Rightarrow> 'a batch \<Rightarrow> 'os nets \<Rightarrow> real \<times> 'os nets" where
  "evaluate env batch nets =
     (case batch of (attr_input, topic_input, sketch_output, review_input, review_output, loss_mask) \<Rightarrow>
      let enc = module_eval (encoder nets);
          bi = module_eval (birnn_encoder nets);
          dec = module_eval (review_decoder nets);
          loss0 = 0;
          print_losses0 = [];
          (encoder_out, encoder_hidden) = encoder_forward env (state_dict enc) (training enc) attr_input;
          review_decoder_input = review_input;
          review_decoder_hidden = py_slice encoder_hidden 0 (mod_n_layers dec);
          (sketch_birnn_output, _) = birnn_forward env (state_dict bi) (training bi) sketch_output;
          (review_decoder_output, _, _) =
             decoder_forward env (state_dict dec) (training dec) review_input
               review_decoder_hidden
               sketch_birnn_output topic_input sketch_output encoder_out;
          mask_loss = masked_cross_entropy env review_decoder_output review_output loss_mask;
          loss = loss0 + mask_loss;
          print_losses = print_losses0 @ [mask_loss]
      in (sum_list print_losses / real (length print_losses),
          nets\<lparr>encoder := enc, birnn_encoder := bi, review_decoder := dec\<rparr>))"

text \<open>
  Any number of calls of \<^verbatim>\<open>train\<close>, one for each batch of a list, on the same networks
  and optimizers; and the three optimizers fitting their networks.
\<close>

definition train_steps :: "('a, 'os) env \<Rightarrow> 'a batch list \<Rightarrow> 'os nets \<Rightarrow> 'os nets" where
  "train_steps env bs n = fold (\<lambda>b n'. snd (train env b n')) bs n"

definition nets_fit :: "'os nets \<Rightarrow> bool" where
  "nets_fit n =
     (fits (encoder_optimizer n) (encoder n)
      \<and> fits (birnn_encoder_optimizer n) (birnn_encoder n)
      \<and> fits (review_decoder_optimizer n) (review_decoder n))"

section \<open>Strings, paths and files\<close>

text \<open>\<^verbatim>\<open>str(n)\<close> of an integer, as \<^verbatim>\<open>'{}'.format(n)\<close> prints it.\<close>

fun str_nat :: "nat \<Rightarrow> string" where
  "str_nat n =
     (if n < 10 then [''0123456789'' ! n]
      else str_nat (n div 10) @ [''0123456789'' ! (n mod 10)])"

declare str_nat.simps [simp del]

definition py_str :: "int \<Rightarrow> string" where
  "py_str n = (if n < 0 then ''-'' @ str_nat (nat (- n)) else str_nat (nat n))"

text \<open>
  \<^verbatim>\<open>os.path.join(a, b)\<close> and \<^verbatim>\<open>os.path.dirname(p)\<close> of \<^verbatim>\<open>posixpath\<close>: an absolute \<open>b\<close>
  replaces \<open>a\<close>; a separator is put between the two unless \<open>a\<close> is empty or ends in
  one.
\<close>

definition os_path_join :: "string \<Rightarrow> string \<Rightarrow> string" where
  "os_path_join a b =
     (if b \<noteq> [] \<and> hd b = CHR ''/'' then b
      else if a = [] \<or> last a = CHR ''/'' then a @ b
      else a @ ''/'' @ b)"

definition os_path_dirname :: "string \<Rightarrow> string" where
  "os_path_dirname p =
     (let head = rev (dropWhile (\<lambda>c. c \<noteq> CHR ''/'') (rev p))
      in if head \<noteq> [] \<and> \<not> list_all (\<lambda>c. c = CHR ''/'') head
         then rev (dropWhile (\<lambda>c. c = CHR ''/'') (rev head))
         else head)"

text \<open>
  The attributes of the module \<^verbatim>\<open>os.path\<close> that take two paths: it defines \<^verbatim>\<open>join\<close>;
  looking up a name it does not define raises AttributeError.
\<close>

definition os_path_getattr :: "string \<Rightarrow> error + (string \<Rightarrow> string \<Rightarrow> string)" where
  "os_path_getattr name = (if name = ''join'' then Inr os_path_join else Inl AttributeError)"

text \<open>
  What a checkpoint file holds: the dictionary \<^verbatim>\<open>trainIters\<close> saves (lines 346 to 357).
  The state of a network is the list of its parameter values; the state of an optimizer
  is its parameter groups and Adam's state.
\<close>

record 'os checkpoint =
  ck_step :: int
  ck_epoch :: int
  ck_encoder :: "tensor list"
  ck_encoder_opt :: "'os optimizer"
  ck_birnn_encoder :: "tensor list"
  ck_birnn_encoder_opt :: "'os optimizer"
  ck_review_decoder :: "tensor list"
  ck_review_decoder_opt :: "'os optimizer"
  ck_loss :: "real list"
  ck_plt :: "real list"

text \<open>
  A file holds a list of batches, a checkpoint, the pickled aspect vectors or a pickled
  dictionary (its keys). The file system is the set of its directories and the map from
  paths to files.
\<close>

datatype ('a, 'os) content =
  Batches "'a batch list"
  | Checkpoint "'os checkpoint"
  | Pickled_ids "real list list"
  | Pickled_dict "string list"

record ('a, 'os) filesystem =
  isdir :: "string \<Rightarrow> bool"
  files :: "string \<rightharpoonup> ('a, 'os) content"

text \<open>
  \<^verbatim>\<open>torch.load\<close>, \<^verbatim>\<open>pickle.load(open(p, 'rb'))\<close>: FileNotFoundError when there is no file
  at the path. \<^verbatim>\<open>torch.save\<close> opens the path for writing: FileNotFoundError when the
  directory of the path does not exist (the empty directory name is the working
  directory).
\<close>

definition torch_load :: "('a, 'os) filesystem \<Rightarrow> string \<Rightarrow> error + ('a, 'os) content" where
  "torch_load fs path = (case files fs path of None \<Rightarrow> Inl FileNotFoundError | Some c \<Rightarrow> Inr c)"

definition torch_save ::
  "('a, 'os) filesystem \<Rightarrow> ('a, 'os) content \<Rightarrow> string \<Rightarrow> error + ('a, 'os) filesystem" where
  "torch_save fs obj path =
     (let d = os_path_dirname path
      in if d = [] \<or> isdir fs d then Inr (fs\<lparr>files := (files fs)(path \<mapsto> obj)\<rparr>)
         else Inl FileNotFoundError)"

definition os_path_exists :: "('a, 'os) filesystem \<Rightarrow> string \<Rightarrow> bool" where
  "os_path_exists fs p = (isdir fs p \<or> files fs p \<noteq> None)"

definition os_makedirs :: "('a, 'os) filesystem \<Rightarrow> string \<Rightarrow> ('a, 'os) filesystem" where
  "os_makedirs fs d = fs\<lparr>isdir := (isdir fs)(d := True)\<rparr>"

text \<open>
  \<^verbatim>\<open>load_state_dict\<close> of a network, \<^verbatim>\<open>state_dict()\<close> and \<^verbatim>\<open>load_state_dict\<close> of an
  optimizer. Loading refuses a state whose shapes do not fit the network, and an optimizer
  state whose groups do not fit the optimizer's; the restored groups keep the optimizer's
  parameters.
\<close>

definition load_state_dict :: "module \<Rightarrow> tensor list \<Rightarrow> error + module" where
  "load_state_dict m sd =
     (if map shape sd = map (\<lambda>p. shape (data p)) (mparams m)
      then Inr (m\<lparr>mparams := map2 (\<lambda>p t. p\<lparr>data := t\<rparr>) (mparams m) sd\<rparr>)
      else Inl RuntimeError)"

definition opt_state_dict :: "'os optimizer \<Rightarrow> 'os optimizer" where
  "opt_state_dict opt = opt"

definition opt_load_state_dict :: "'os optimizer \<Rightarrow> 'os optimizer \<Rightarrow> error + 'os optimizer" where
  "opt_load_state_dict opt sd =
     (if map (\<lambda>g. length (params g)) (param_groups sd)
           = map (\<lambda>g. length (params g)) (param_groups opt)
      then Inr \<lparr>param_groups =
                  map2 (\<lambda>g saved. saved\<lparr>params := params g\<rparr>) (param_groups opt) (param_groups sd),
                opt_state = opt_state sd\<rparr>
      else Inl ValueError)"

section \<open>trainIters: data, networks and the state at the first epoch\<close>

record vocab =
  n_words :: int
  n_topics :: int
  n_sketchs :: int

text \<open>
  \<^verbatim>\<open>loadPrepareData\<close> (\<^verbatim>\<open>load.py\<close>) and \<^verbatim>\<open>batch2TrainData\<close> (\<^verbatim>\<open>util.py\<close>) are not part of
  \<^verbatim>\<open>train.py\<close>; \<open>'p\<close> is the type of a pair of the corpus.
\<close>

record ('p, 'a) loader =
  loadPrepareData :: "string \<Rightarrow> string \<Rightarrow> vocab \<times> 'p list \<times> 'p list \<times> 'p list"
  batch2TrainData :: "vocab \<Rightarrow> 'p list \<Rightarrow> bool \<Rightarrow> 'a batch"

text \<open>The arguments of \<^verbatim>\<open>trainIters\<close>; \<^verbatim>\<open>loadFilename\<close> defaults to \<^verbatim>\<open>None\<close>.\<close>

record config =
  corpus :: string
  learning_rate :: real
  lr_decay_epoch :: int
  lr_decay_ratio :: real
  batch_size :: int
  n_layers :: int
  hidden_size :: int
  embed_size :: int
  attr_size :: int
  attr_num :: int
  overall :: int
  save_dir :: string
  loadFilename :: "string option"

text \<open>\<^verbatim>\<open>if loadFilename:\<close> holds for a path that is neither \<^verbatim>\<open>None\<close> nor empty.\<close>

definition given_path :: "string option \<Rightarrow> string option" where
  "given_path f = (case f of None \<Rightarrow> None | Some path \<Rightarrow> if path = [] then None else Some path)"

text \<open>
  The try/except of lines 153 to 159, which lines 163 to 169 and 171 to 177 repeat for
  the other two splits: load the cache; on FileNotFoundError, and on no other exception,
  build the batches with \<^verbatim>\<open>batchify\<close> and save them at the path the load was tried at. A
  file that holds something else than a list of batches is outside what the source
  expects; the load is taken to fail with TypeError.
\<close>

text \<open>
  \<^verbatim>\<open>os.path.join(data_path, '{}_{}.tar'.format(name, batch_size))\<close>, the path of a cache.
\<close>

definition cache_path :: "string \<Rightarrow> string \<Rightarrow> int \<Rightarrow> string" where
  "cache_path data_path name bsz = os_path_join data_path (name @ ''_'' @ py_str bsz @ ''.tar'')"

definition cached_batches ::
  "(vocab \<Rightarrow> 'p list \<Rightarrow> bool \<Rightarrow> 'a batch) \<Rightarrow> ('a, 'os) filesystem \<Rightarrow> string \<Rightarrow> string \<Rightarrow> int \<Rightarrow>
   'p list \<Rightarrow> vocab \<Rightarrow> bool \<Rightarrow> error + 'a batch list \<times> ('a, 'os) filesystem" where
  "cached_batches b2t fs data_path name bsz pairs voc evaluation =
     (let path = cache_path data_path name bsz
      in case torch_load fs path of
           Inr (Batches bs) \<Rightarrow> Inr (bs, fs)
         | Inr _ \<Rightarrow> Inl TypeError
         | Inl e \<Rightarrow>
             if e = FileNotFoundError
             then and_then (batchify b2t pairs bsz voc evaluation) (\<lambda>bs.
                  and_then (torch_save fs (Batches bs) path) (\<lambda>fs'.
                    Inr (bs, fs')))
             else Inl e)"

text \<open>Lines 149 to 177: the three caches. The evaluation batch size is the constant 10.\<close>

definition load_batches ::
  "('p, 'a) loader \<Rightarrow> config \<Rightarrow> ('a, 'os) filesystem \<Rightarrow> vocab \<Rightarrow> 'p list \<Rightarrow> 'p list \<Rightarrow> 'p list \<Rightarrow>
   error + 'a batch list \<times> 'a batch list \<times> 'a batch list \<times> ('a, 'os) filesystem" where
  "load_batches ld cfg fs voc train_pairs valid_pairs test_pairs =
     (let data_path = os_path_join (save_dir cfg) ''batches''
      in and_then (cached_batches (batch2TrainData ld) fs data_path ''training_batches''
                     (batch_size cfg) train_pairs voc False) (\<lambda>(training_batches, fs1).
         let eval_batch_size = 10
         in and_then (cached_batches (batch2TrainData ld) fs1 data_path ''val_batches''
                        eval_batch_size valid_pairs voc True) (\<lambda>(val_batches, fs2).
            and_then (cached_batches (batch2TrainData ld) fs2 data_path ''test_batches''
                        eval_batch_size test_pairs voc True) (\<lambda>(test_batches, fs3).
              Inr (training_batches, val_batches, test_batches, fs3)))))"

text \<open>
  The values drawn at random when the embedding tables are created, and the parameters
  the three network constructors create beside the tables they are given.
\<close>

record init_weights =
  uemb_w :: "real list"
  iemb_w :: "real list"
  sketch_w :: "real list"
  topic_w :: "real list"
  sketch2_w :: "real list"
  word_w :: "real list"
  aspect_w :: "real list"
  encoder_own :: "parameter list"
  birnn_own :: "parameter list"
  decoder_own :: "parameter list"

text \<open>
  Modelled from the spec: the constructors \<^verbatim>\<open>AttributeEncoder\<close>, \<^verbatim>\<open>EncoderRNN\<close> and
  \<^verbatim>\<open>ReviewAttnDecoderRNN\<close> live in \<^verbatim>\<open>model.py\<close>, which is not among the sources. The spec
  has each network look its inputs up in the embedding tables it is given, and the review
  decoder start from the encoder's hidden state truncated to its own layer count: a
  network owns the tables it is given, in the order of the call, followed by the
  parameters it creates itself; it starts in training mode, with the layer count it is
  given.
\<close>

definition AttributeEncoder :: "embedding list \<Rightarrow> int \<Rightarrow> parameter list \<Rightarrow> module" where
  "AttributeEncoder attr_embeddings layers own =
     \<lparr>mparams = map weight attr_embeddings @ own, training = True, mod_n_layers = layers\<rparr>"

definition EncoderRNN :: "embedding \<Rightarrow> int \<Rightarrow> parameter list \<Rightarrow> module" where
  "EncoderRNN sketch_embedding layers own =
     \<lparr>mparams = weight sketch_embedding # own, training = True, mod_n_layers = layers\<rparr>"

definition ReviewAttnDecoderRNN ::
  "embedding \<Rightarrow> embedding \<Rightarrow> embedding \<Rightarrow> embedding \<Rightarrow> int \<Rightarrow> parameter list \<Rightarrow> module" where
  "ReviewAttnDecoderRNN topic_embedding sketch_embedding word_embedding aspect_ids layers own =
     \<lparr>mparams = [weight topic_embedding, weight sketch_embedding, weight word_embedding,
                 weight aspect_ids] @ own,
      training = True, mod_n_layers = layers\<rparr>"

text \<open>
  \<^verbatim>\<open>torch.from_numpy(np.array(ids))\<close> of a list of rows, and \<^verbatim>\<open>dst.copy_(src)\<close> for two
  tensors of one shape (broadcasting is left out: another shape is refused).
\<close>

definition np_array :: "real list list \<Rightarrow> error + tensor" where
  "np_array rows =
     (case rows of
        [] \<Rightarrow> Inr (Tensor [0] [])
      | r # _ \<Rightarrow>
          if list_all (\<lambda>x. length x = length r) rows
          then Inr (Tensor [length rows, length r] (concat rows))
          else Inl TypeError)"

definition tensor_copy :: "tensor \<Rightarrow> tensor \<Rightarrow> error + tensor" where
  "tensor_copy dst src = (if shape src = shape dst then Inr src else Inl RuntimeError)"

text \<open>\<^verbatim>\<open>with open(path, 'rb') as fp: pickle.load(fp)\<close>.\<close>

definition pickle_load :: "('a, 'os) filesystem \<Rightarrow> string \<Rightarrow> error + ('a, 'os) content" where
  "pickle_load fs path = (case files fs path of None \<Rightarrow> Inl FileNotFoundError | Some c \<Rightarrow> Inr c)"

definition load_ids :: "('a, 'os) filesystem \<Rightarrow> string \<Rightarrow> error + real list list" where
  "load_ids fs path =
     and_then (pickle_load fs path) (\<lambda>c. case c of Pickled_ids ids \<Rightarrow> Inr ids | _ \<Rightarrow> Inl TypeError)"

definition load_dict :: "('a, 'os) filesystem \<Rightarrow> string \<Rightarrow> error + string list" where
  "load_dict fs path =
     and_then (pickle_load fs path) (\<lambda>c. case c of Pickled_dict d \<Rightarrow> Inr d | _ \<Rightarrow> Inl TypeError)"

text \<open>
  Lines 204 and 205: the rating table,
  \<^verbatim>\<open>from_pretrained(torch.cat((torch.eye(num_over), torch.zeros(num_over, attr_size-num_over)), dim=1))\<close>.
\<close>

definition rating_embedding :: "int \<Rightarrow> int \<Rightarrow> error + embedding" where
  "rating_embedding num_over attr_sz =
     and_then (torch_eye num_over) (\<lambda>eye.
     and_then (torch_zeros num_over (attr_sz - num_over)) (\<lambda>zeros.
     and_then (torch_cat1 eye zeros) (\<lambda>pattern.
       from_pretrained pattern True)))"

text \<open>
  What the spec says of the rating table, to compare with: the identity matrix of size
  \<open>n\<close> followed by columns of zeros up to the width \<open>a\<close>, that is the \<open>n\<close> by \<open>a\<close> matrix
  with a one where the row and column indices are equal and zeros elsewhere.
\<close>

definition identity_then_zeros :: "nat \<Rightarrow> nat \<Rightarrow> tensor" where
  "identity_then_zeros n a =
     Tensor [n, a] (concat (map (\<lambda>i. map (\<lambda>j. if i = j then 1 else 0) [0..<a]) [0..<n]))"

text \<open>The entry in row \<open>i\<close> and column \<open>j\<close> of a matrix.\<close>

definition entry :: "tensor \<Rightarrow> nat \<Rightarrow> nat \<Rightarrow> real" where
  "entry t i j = elems t ! (i * (shape t ! 1) + j)"

text \<open>
  Lines 230 to 232: the aspect table, created with \<^verbatim>\<open>vocab.n_topics - 3\<close> rows of width
  100, filled from the pickled vectors and frozen.
\<close>

definition aspect_embedding :: "vocab \<Rightarrow> real list \<Rightarrow> real list list \<Rightarrow> error + embedding" where
  "aspect_embedding voc w ids =
     and_then (nn_Embedding (n_topics voc - 3) 100 w) (\<lambda>aspect_ids.
     and_then (np_array ids) (\<lambda>src.
     and_then (tensor_copy (data (weight aspect_ids)) src) (\<lambda>t.
       Inr (aspect_ids\<lparr>weight := (weight aspect_ids)\<lparr>data := t, requires_grad := False\<rparr>\<rparr>))))"

text \<open>Lines 180 to 235: the pickled lookups, the embedding tables and the three networks.\<close>

definition build_networks ::
  "('a, 'os) filesystem \<Rightarrow> config \<Rightarrow> vocab \<Rightarrow> init_weights \<Rightarrow> error + module \<times> module \<times> module" where
  "build_networks fs cfg voc w =
     and_then (load_ids fs (os_path_join (save_dir cfg) ''aspect_ids.pkl'')) (\<lambda>ids.
     and_then (load_dict fs (os_path_join (save_dir cfg) ''user.pkl'')) (\<lambda>user_dict.
     and_then (load_dict fs (os_path_join (save_dir cfg) ''item.pkl'')) (\<lambda>item_dict.
     let num_user = int (length user_dict);
         num_item = int (length item_dict);
         num_over = overall cfg
     in
     and_then (nn_Embedding num_user (attr_size cfg) (uemb_w w)) (\<lambda>uemb.
     and_then (nn_Embedding num_item (attr_size cfg) (iemb_w w)) (\<lambda>iemb.
     and_then (rating_embedding num_over (attr_size cfg)) (\<lambda>remb.
     let attr_embeddings = [uemb, iemb, remb];
         enc = AttributeEncoder attr_embeddings (n_layers cfg) (encoder_own w)
     in
     and_then (nn_Embedding (n_sketchs voc) (embed_size cfg) (sketch_w w)) (\<lambda>sketch_embedding.
     let bi = EncoderRNN sketch_embedding (n_layers cfg) (birnn_own w)
     in
     and_then (nn_Embedding (n_topics voc) (embed_size cfg) (topic_w w)) (\<lambda>topic_embedding.
     and_then (nn_Embedding (n_sketchs voc) (embed_size cfg) (sketch2_w w)) (\<lambda>sketch_embedding2.
     and_then (nn_Embedding (n_words voc) (embed_size cfg) (word_w w)) (\<lambda>word_embedding.
     and_then (aspect_embedding voc (aspect_w w) ids) (\<lambda>aspect_ids.
     let dec = ReviewAttnDecoderRNN topic_embedding sketch_embedding2 word_embedding aspect_ids
                 (n_layers cfg) (decoder_own w)
     in Inr (enc, bi, dec))))))))))))"

text \<open>
  Lines 237 to 241 and 255 to 258: with a checkpoint, the three networks and the three
  optimizers load their saved states.
\<close>

definition load_checkpoint ::
  "('a, 'os) filesystem \<Rightarrow> string option \<Rightarrow> error + 'os checkpoint option" where
  "load_checkpoint fs f =
     (case given_path f of
        None \<Rightarrow> Inr None
      | Some path \<Rightarrow>
          and_then (torch_load fs path) (\<lambda>c.
            case c of Checkpoint ck \<Rightarrow> Inr (Some ck) | _ \<Rightarrow> Inl TypeError))"

definition restore_networks ::
  "'os checkpoint option \<Rightarrow> module \<times> module \<times> module \<Rightarrow> error + module \<times> module \<times> module" where
  "restore_networks checkpoint ms =
     (case checkpoint of
        None \<Rightarrow> Inr ms
      | Some ck \<Rightarrow>
          (case ms of (enc, bi, dec) \<Rightarrow>
             and_then (load_state_dict enc (ck_encoder ck)) (\<lambda>enc'.
             and_then (load_state_dict bi (ck_birnn_encoder ck)) (\<lambda>bi'.
             and_then (load_state_dict dec (ck_review_decoder ck)) (\<lambda>dec'.
               Inr (enc', bi', dec'))))))"

definition restore_optimizers :: "'os checkpoint option \<Rightarrow> 'os nets \<Rightarrow> error + 'os nets" where
  "restore_optimizers checkpoint nets =
     (case checkpoint of
        None \<Rightarrow> Inr nets
      | Some ck \<Rightarrow>
          and_then (opt_load_state_dict (encoder_optimizer nets) (ck_encoder_opt ck)) (\<lambda>eo.
          and_then (opt_load_state_dict (birnn_encoder_optimizer nets) (ck_birnn_encoder_opt ck)) (\<lambda>bo.
          and_then (opt_load_state_dict (review_decoder_optimizer nets) (ck_review_decoder_opt ck)) (\<lambda>do.
            Inr (nets\<lparr>encoder_optimizer := eo, birnn_encoder_optimizer := bo,
                       review_decoder_optimizer := do\<rparr>)))))"

text \<open>Lines 251 to 253: one Adam optimizer for each network, on its trainable parameters.\<close>

definition build_optimizers :: "'os \<Rightarrow> real \<Rightarrow> module \<times> module \<times> module \<Rightarrow> error + 'os nets" where
  "build_optimizers s0 rate ms =
     (case ms of (enc, bi, dec) \<Rightarrow>
        and_then (optim_Adam s0 enc rate) (\<lambda>eo.
        and_then (optim_Adam s0 bi rate) (\<lambda>bo.
        and_then (optim_Adam s0 dec rate) (\<lambda>do.
          Inr \<lparr>encoder = enc, birnn_encoder = bi, review_decoder = dec,
               encoder_optimizer = eo, birnn_encoder_optimizer = bo,
               review_decoder_optimizer = do\<rparr>))))"

text \<open>
  The variables of the epoch loop: the networks and optimizers, \<^verbatim>\<open>step\<close>, \<^verbatim>\<open>epoch\<close>, the
  histories \<^verbatim>\<open>_loss\<close> (here \<open>loss_hist\<close>) and \<^verbatim>\<open>perplexity\<close>, \<^verbatim>\<open>best_val_loss\<close>, the events
  sent to the metrics writer (tag, value, step) and the file system.
\<close>

record ('a, 'os) tstate =
  networks :: "'os nets"
  step :: int
  epoch :: int
  loss_hist :: "real list"
  perplexity :: "real list"
  best_val_loss :: "real option"
  writer :: "(string \<times> real \<times> int) list"
  fsys :: "('a, 'os) filesystem"

text \<open>
  Lines 279 to 281: \<^verbatim>\<open>for i in range(len(_loss))\<close>, one loss event and one perplexity
  event at index \<open>i\<close>; \<^verbatim>\<open>perplexity[i]\<close> raises IndexError beyond the perplexity history.
\<close>

fun replay ::
  "real list \<Rightarrow> real list \<Rightarrow> nat list \<Rightarrow> (string \<times> real \<times> int) list \<Rightarrow>
   error + (string \<times> real \<times> int) list" where
  "replay l p [] w = Inr w"
| "replay l p (i # is) w =
     (if i < length p
      then replay l p is (w @ [(''Train/loss'', l ! i, int i), (''Train/perplexity'', p ! i, int i)])
      else Inl IndexError)"

text \<open>Lines 274 to 281.\<close>

definition restore_training ::
  "'os checkpoint option \<Rightarrow> ('a, 'os) tstate \<Rightarrow> error + ('a, 'os) tstate" where
  "restore_training checkpoint s =
     (case checkpoint of
        None \<Rightarrow> Inr s
      | Some ck \<Rightarrow>
          and_then (replay (ck_loss ck) (ck_plt ck) [0..<length (ck_loss ck)] (writer s)) (\<lambda>w.
            Inr (s\<lparr>step := ck_step ck, epoch := ck_epoch ck + 1, perplexity := ck_plt ck,
                   loss_hist := ck_loss ck, writer := w\<rparr>)))"

text \<open>
  Lines 146 to 281: everything \<^verbatim>\<open>trainIters\<close> does before the epoch loop. The result is
  the state at the first epoch and the three lists of batches.
\<close>

definition trainIters_setup ::
  "('a, 'os) env \<Rightarrow> ('p, 'a) loader \<Rightarrow> config \<Rightarrow> init_weights \<Rightarrow> ('a, 'os) filesystem \<Rightarrow>
   error + ('a, 'os) tstate \<times> 'a batch list \<times> 'a batch list \<times> 'a batch list" where
  "trainIters_setup env ld cfg w fs =
     (case loadPrepareData ld (corpus cfg) (save_dir cfg) of
        (voc, train_pairs, valid_pairs, test_pairs) \<Rightarrow>
     and_then (load_batches ld cfg fs voc train_pairs valid_pairs test_pairs)
       (\<lambda>(training_batches, val_batches, test_batches, fs1).
     and_then (build_networks fs1 cfg voc w) (\<lambda>ms.
     and_then (load_checkpoint fs1 (loadFilename cfg)) (\<lambda>checkpoint.
     and_then (restore_networks checkpoint ms) (\<lambda>ms'.
     and_then (build_optimizers (adam_init env) (learning_rate cfg) ms') (\<lambda>nets0.
     and_then (restore_optimizers checkpoint nets0) (\<lambda>nets1.
     let log_path = ''ckpt/'' @ corpus cfg;
         fs2 = (if \<not> os_path_exists fs1 log_path then os_makedirs fs1 log_path else fs1);
         s0 = \<lparr>networks = nets1, step = 0, epoch = 0, loss_hist = [], perplexity = [],
               best_val_loss = None, writer = [], fsys = fs2\<rparr>
     in and_then (restore_training checkpoint s0) (\<lambda>s.
          Inr (s, training_batches, val_batches, test_batches)))))))))"

section \<open>trainIters: the epoch loop\<close>

text \<open>\<^verbatim>\<open>x / len(batches)\<close>: ZeroDivisionError for an empty list.\<close>

definition mean_over :: "real \<Rightarrow> 'b list \<Rightarrow> error + real" where
  "mean_over x bs = (if length bs = 0 then Inl ZeroDivisionError else Inr (x / real (length bs)))"

text \<open>Lines 286 to 293: the three learning rates are set, the networks put in training mode.\<close>

definition epoch_begin :: "config \<Rightarrow> ('a, 'os) tstate \<Rightarrow> error + ('a, 'os) tstate" where
  "epoch_begin cfg s =
     (let n = networks s
      in and_then (adjust_learning_rate (encoder_optimizer n) (epoch s) (learning_rate cfg)
                     (lr_decay_epoch cfg) (lr_decay_ratio cfg)) (\<lambda>eo.
         and_then (adjust_learning_rate (birnn_encoder_optimizer n) (epoch s) (learning_rate cfg)
                     (lr_decay_epoch cfg) (lr_decay_ratio cfg)) (\<lambda>bo.
         and_then (adjust_learning_rate (review_decoder_optimizer n) (epoch s) (learning_rate cfg)
                     (lr_decay_epoch cfg) (lr_decay_ratio cfg)) (\<lambda>do.
           Inr (s\<lparr>networks :=
                    \<lparr>encoder = module_train (encoder n),
                     birnn_encoder = module_train (birnn_encoder n),
                     review_decoder = module_train (review_decoder n),
                     encoder_optimizer = eo, birnn_encoder_optimizer = bo,
                     review_decoder_optimizer = do\<rparr>\<rparr>)))))"

text \<open>Lines 296 to 313, one training batch; the second component is the new \<^verbatim>\<open>tr_loss\<close>.\<close>

definition train_batch ::
  "('a, 'os) env \<Rightarrow> 'a batch \<Rightarrow> ('a, 'os) tstate \<times> real \<Rightarrow> ('a, 'os) tstate \<times> real" where
  "train_batch env training_batch acc =
     (case acc of (s, tr_loss) \<Rightarrow>
      case train env training_batch (networks s) of (loss, n) \<Rightarrow>
        let step' = step s + 1
        in (s\<lparr>networks := n, step := step',
              loss_hist := loss_hist s @ [loss],
              perplexity := perplexity s @ [exp loss],
              writer := writer s @ [(''Train/loss'', loss, step'),
                                    (''Train/perplexity'', exp loss, step')]\<rparr>,
            tr_loss + loss))"

text \<open>Lines 325 to 331 and 362 to 368: the summed loss of \<^verbatim>\<open>evaluate\<close> over a list of batches.\<close>

definition eval_batches ::
  "('a, 'os) env \<Rightarrow> 'a batch list \<Rightarrow> 'os nets \<Rightarrow> real \<times> 'os nets" where
  "eval_batches env bs n =
     fold (\<lambda>b (acc, n'). case evaluate env b n' of (loss, n'') \<Rightarrow> (acc + loss, n'')) bs (0, n)"

text \<open>The dictionary of lines 346 to 357.\<close>

definition make_checkpoint :: "('a, 'os) tstate \<Rightarrow> 'os checkpoint" where
  "make_checkpoint s =
     \<lparr>ck_step = step s,
      ck_epoch = epoch s,
      ck_encoder = state_dict (encoder (networks s)),
      ck_encoder_opt = opt_state_dict (encoder_optimizer (networks s)),
      ck_birnn_encoder = state_dict (birnn_encoder (networks s)),
      ck_birnn_encoder_opt = opt_state_dict (birnn_encoder_optimizer (networks s)),
      ck_review_decoder = state_dict (review_decoder (networks s)),
      ck_review_decoder_opt = opt_state_dict (review_decoder_optimizer (networks s)),
      ck_loss = loss_hist s,
      ck_plt = perplexity s\<rparr>"

text \<open>Lines 343 to 357: the directory is created when it is missing, the checkpoint saved.\<close>

definition checkpoint_path :: "config \<Rightarrow> string \<Rightarrow> int \<Rightarrow> string" where
  "checkpoint_path cfg model_path ep =
     os_path_join
       (os_path_join model_path
          (py_str (n_layers cfg) @ ''_'' @ py_str (hidden_size cfg) @ ''_'' @ py_str (batch_size cfg)))
       (py_str ep @ ''_'' @ ''review_model'' @ ''.tar'')"

definition save_checkpoint ::
  "config \<Rightarrow> string \<Rightarrow> ('a, 'os) tstate \<Rightarrow> error + ('a, 'os) tstate" where
  "save_checkpoint cfg model_path s =
     (let directory =
            os_path_join model_path
              (py_str (n_layers cfg) @ ''_'' @ py_str (hidden_size cfg) @ ''_'' @ py_str (batch_size cfg));
          fs1 = (if \<not> os_path_exists (fsys s) directory then os_makedirs (fsys s) directory
                 else fsys s)
      in and_then (torch_save fs1 (Checkpoint (make_checkpoint s))
                     (os_path_join directory (py_str (epoch s) @ ''_'' @ ''review_model'' @ ''.tar'')))
           (\<lambda>fs2. Inr (s\<lparr>fsys := fs2\<rparr>)))"

text \<open>
  Line 342, \<^verbatim>\<open>not best_val_loss or vl_loss < best_val_loss\<close>: \<^verbatim>\<open>not\<close> holds of \<^verbatim>\<open>None\<close> and
  of the float zero.
\<close>

definition improved :: "real option \<Rightarrow> real \<Rightarrow> bool" where
  "improved best vl_loss = (case best of None \<Rightarrow> True | Some b \<Rightarrow> b = 0 \<or> vl_loss < b)"

text \<open>
  Lines 342 to 374: on an improvement the checkpoint is saved, \<^verbatim>\<open>best_val_loss\<close> updated,
  the test batches evaluated and their mean loss sent to the writer.
\<close>

definition checkpoint_and_test ::
  "('a, 'os) env \<Rightarrow> config \<Rightarrow> 'a batch list \<Rightarrow> string \<Rightarrow> real \<Rightarrow> ('a, 'os) tstate \<Rightarrow>
   error + ('a, 'os) tstate" where
  "checkpoint_and_test env cfg test_batches model_path vl_loss s =
     (if improved (best_val_loss s) vl_loss
      then and_then (save_checkpoint cfg model_path s) (\<lambda>s1.
           let s2 = s1\<lparr>best_val_loss := Some vl_loss\<rparr>
           in case eval_batches env test_batches (networks s2) of (ts_sum, n) \<Rightarrow>
              and_then (mean_over ts_sum test_batches) (\<lambda>ts_loss.
                Inr (s2\<lparr>networks := n,
                        writer := writer s2 @ [(''Test/loss'', ts_loss, step s2)]\<rparr>)))
      else Inr s)"

text \<open>
  Lines 286 to 338, the first part of the body of \<^verbatim>\<open>while True\<close>: the learning rates,
  the pass over the training batches, the mean training loss, the mean validation loss
  and its event. The result is the state and \<^verbatim>\<open>vl_loss\<close>. Printing is left out.
\<close>

definition epoch_validate ::
  "('a, 'os) env \<Rightarrow> config \<Rightarrow> 'a batch list \<Rightarrow> 'a batch list \<Rightarrow> ('a, 'os) tstate \<Rightarrow>
   error + ('a, 'os) tstate \<times> real" where
  "epoch_validate env cfg training_batches val_batches s =
     and_then (epoch_begin cfg s) (\<lambda>s1.
     case fold (train_batch env) training_batches (s1, 0) of (s2, tr_loss) \<Rightarrow>
     and_then (mean_over tr_loss training_batches) (\<lambda>cur_loss.
     case eval_batches env val_batches (networks s2) of (vl_sum, n) \<Rightarrow>
     and_then (mean_over vl_sum val_batches) (\<lambda>vl_loss.
       Inr (s2\<lparr>networks := n, writer := writer s2 @ [(''Valid/loss'', vl_loss, step s2)]\<rparr>,
            vl_loss))))"

text \<open>
  Lines 341 to 381, the second part. Line 341 reads
  \<^verbatim>\<open>model_path = os.path.joion(save_dir, "model")\<close>. The result is the state and whether the
  loop is left (\<^verbatim>\<open>break\<close>, line 379). At line 377 \<^verbatim>\<open>best_val_loss\<close> is a float; comparing
  with \<^verbatim>\<open>None\<close> would raise TypeError.
\<close>

definition epoch_decide ::
  "('a, 'os) env \<Rightarrow> config \<Rightarrow> 'a batch list \<Rightarrow> real \<Rightarrow> ('a, 'os) tstate \<Rightarrow>
   error + ('a, 'os) tstate \<times> bool" where
  "epoch_decide env cfg test_batches vl_loss s =
     and_then (os_path_getattr ''joion'') (\<lambda>joion.
     let model_path = joion (save_dir cfg) ''model''
     in
     and_then (checkpoint_and_test env cfg test_batches model_path vl_loss s) (\<lambda>s4.
     case best_val_loss s4 of
       None \<Rightarrow> Inl TypeError
     | Some best \<Rightarrow>
         if vl_loss > best then Inr (s4, True)
         else Inr (s4\<lparr>epoch := epoch s4 + 1\<rparr>, False)))"

text \<open>Lines 286 to 381: one pass through the body of \<^verbatim>\<open>while True\<close>.\<close>

definition epoch_iteration ::
  "('a, 'os) env \<Rightarrow> config \<Rightarrow> 'a batch list \<Rightarrow> 'a batch list \<Rightarrow> 'a batch list \<Rightarrow>
   ('a, 'os) tstate \<Rightarrow> error + ('a, 'os) tstate \<times> bool" where
  "epoch_iteration env cfg training_batches val_batches test_batches s =
     and_then (epoch_validate env cfg training_batches val_batches s) (\<lambda>(s3, vl_loss).
       epoch_decide env cfg test_batches vl_loss s3)"

text \<open>
  \<^verbatim>\<open>while True\<close>: the loop ends by \<^verbatim>\<open>break\<close> or by an exception; \<open>None\<close> is the loop that
  runs forever.
\<close>

partial_function (option) epoch_loop ::
  "('a, 'os) env \<Rightarrow> config \<Rightarrow> 'a batch list \<Rightarrow> 'a batch list \<Rightarrow> 'a batch list \<Rightarrow>
   ('a, 'os) tstate \<Rightarrow> (error + ('a, 'os) tstate) option" where
  "epoch_loop env cfg training_batches val_batches test_batches s =
     (case epoch_iteration env cfg training_batches val_batches test_batches s of
        Inl e \<Rightarrow> Some (Inl e)
      | Inr (s', stop) \<Rightarrow>
          if stop then Some (Inr s')
          else epoch_loop env cfg training_batches val_batches test_batches s')"

definition trainIters ::
  "('a, 'os) env \<Rightarrow> ('p, 'a) loader \<Rightarrow> config \<Rightarrow> init_weights \<Rightarrow> ('a, 'os) filesystem \<Rightarrow>
   (error + ('a, 'os) tstate) option" where
  "trainIters env ld cfg w fs =
     (case trainIters_setup env ld cfg w fs of
        Inl e \<Rightarrow> Some (Inl e)
      | Inr (s, training_batches, val_batches, test_batches) \<Rightarrow>
          epoch_loop env cfg training_batches val_batches test_batches s)"

section \<open>A small run\<close>

text \<open>
  A concrete environment on which the definitions above are evaluated. The attribute
  encoder has one trainable parameter, a counter that every training step raises by one;
  the loss of a batch is read off the counter: 2.5 after one training step, 2.3 after
  two, 2.4 after three. With one training batch and one validation batch in every epoch,
  the mean validation losses of the first three epochs are 2.5, 2.3 and 2.4.
\<close>

definition demo_env :: "(real, unit) env" where
  "demo_env =
     \<lparr>encoder_forward = (\<lambda>ps tr x. (sum_list (concat (map elems ps)), [x])),
      birnn_forward = (\<lambda>ps tr x. (x, x)),
      decoder_forward = (\<lambda>ps tr inp hid mem top sk out. (out, hid, inp)),
      masked_cross_entropy = (\<lambda>out tgt msk. if out = 1 then 5 / 2 else if out = 2 then 23 / 10 else 12 / 5),
      autograd = (\<lambda>e b d bt k i. if k = 0 \<and> i = 0 then Some (Tensor [1] [1]) else None),
      adam = (\<lambda>rate st i d g. (tensor_add d g, st)),
      adam_init = ()\<rparr>"

definition demo_batch :: "real batch" where
  "demo_batch = (1, 2, 3, 4, 5, 6)"

definition demo_nets :: "real \<Rightarrow> bool \<Rightarrow> bool \<Rightarrow> unit nets" where
  "demo_nets c stepped tr =
     \<lparr>encoder = \<lparr>mparams = [\<lparr>data = Tensor [1] [c], requires_grad = True,
                             grad = (if stepped then Some (Tensor [1] [1]) else None)\<rparr>],
                  training = tr, mod_n_layers = 2\<rparr>,
      birnn_encoder = \<lparr>mparams = [], training = tr, mod_n_layers = 2\<rparr>,
      review_decoder = \<lparr>mparams = [], training = tr, mod_n_layers = 2\<rparr>,
      encoder_optimizer = \<lparr>param_groups = [\<lparr>params = [0], lr = 1 / 1000\<rparr>], opt_state = ()\<rparr>,
      birnn_encoder_optimizer = \<lparr>param_groups = [\<lparr>params = [], lr = 1 / 1000\<rparr>], opt_state = ()\<rparr>,
      review_decoder_optimizer = \<lparr>param_groups = [\<lparr>params = [], lr = 1 / 1000\<rparr>], opt_state = ()\<rparr>\<rparr>"

definition demo_cfg :: config where
  "demo_cfg =
     \<lparr>corpus = ''demo'', learning_rate = 1 / 1000, lr_decay_epoch = 10, lr_decay_ratio = 1 / 2,
      batch_size = 2, n_layers = 2, hidden_size = 16, embed_size = 8, attr_size = 8,
      attr_num = 3, overall = 5, save_dir = ''data'', loadFilename = None\<rparr>"

definition demo_fs :: "(real, unit) filesystem" where
  "demo_fs = \<lparr>isdir = (\<lambda>p. p = ''data'' \<or> p = ''data/batches''), files = Map.empty\<rparr>"

definition demo_loader :: "(nat, real) loader" where
  "demo_loader =
     \<lparr>loadPrepareData =
        (\<lambda>c d. (\<lparr>n_words = 50, n_topics = 5, n_sketchs = 7\<rparr>,
                 [1, 2, 3, 4, 5], [1, 2, 3, 4, 5, 6, 7, 8, 9, 10], [1, 2, 3, 4, 5, 6, 7, 8, 9, 10, 11, 12])),
      batch2TrainData =
        (\<lambda>voc ps ev. (real (sum_list ps), real (length ps), 0, 0, 0, if ev then 1 else 0))\<rparr>"

definition demo_state :: "(real, unit) tstate" where
  "demo_state =
     \<lparr>networks = demo_nets 0 False True, step = 0, epoch = 0, loss_hist = [], perplexity = [],
      best_val_loss = None, writer = [], fsys = demo_fs\<rparr>"


text \<open>
  The same run with its pickled lookups (three users, four items, two aspect vectors), the
  values drawn for the embedding tables, and a checkpoint of epoch 0 to resume from.
\<close>

definition demo_voc :: vocab where
  "demo_voc = \<lparr>n_words = 50, n_topics = 5, n_sketchs = 7\<rparr>"

definition demo_weights :: init_weights where
  "demo_weights =
     \<lparr>uemb_w = replicate 24 0, iemb_w = replicate 32 0, sketch_w = replicate 56 0,
      topic_w = replicate 40 0, sketch2_w = replicate 56 0, word_w = replicate 400 0,
      aspect_w = replicate 200 0, encoder_own = [], birnn_own = [], decoder_own = []\<rparr>"

definition demo_files :: "string \<rightharpoonup> (real, unit) content" where
  "demo_files =
     [''data/aspect_ids.pkl'' \<mapsto> Pickled_ids [replicate 100 (1 / 2), replicate 100 (1 / 2)],
      ''data/user.pkl'' \<mapsto> Pickled_dict [''u1'', ''u2'', ''u3''],
      ''data/item.pkl'' \<mapsto> Pickled_dict [''i1'', ''i2'', ''i3'', ''i4'']]"

definition demo_ck :: "unit checkpoint" where
  "demo_ck =
     \<lparr>ck_step = 2, ck_epoch = 0,
      ck_encoder = [Tensor [3, 8] (replicate 24 1), Tensor [4, 8] (replicate 32 1),
                    identity_then_zeros 5 8],
      ck_encoder_opt = \<lparr>param_groups = [\<lparr>params = [0, 1], lr = 1 / 2000\<rparr>], opt_state = ()\<rparr>,
      ck_birnn_encoder = [Tensor [7, 8] (replicate 56 1)],
      ck_birnn_encoder_opt = \<lparr>param_groups = [\<lparr>params = [0], lr = 1 / 2000\<rparr>], opt_state = ()\<rparr>,
      ck_review_decoder = [Tensor [5, 8] (replicate 40 1), Tensor [7, 8] (replicate 56 1),
                           Tensor [50, 8] (replicate 400 1), Tensor [2, 100] (replicate 200 (1 / 2))],
      ck_review_decoder_opt =
        \<lparr>param_groups = [\<lparr>params = [0, 1, 2], lr = 1 / 2000\<rparr>], opt_state = ()\<rparr>,
      ck_loss = [3, 14 / 5],
      ck_plt = [20, 16]\<rparr>"

definition demo_ck_path :: string where
  "demo_ck_path = ''data/model/2_16_2/0_review_model.tar''"

definition demo_resume_cfg :: config where
  "demo_resume_cfg = demo_cfg\<lparr>loadFilename := Some demo_ck_path\<rparr>"

definition demo_resume_fs :: "(real, unit) filesystem" where
  "demo_resume_fs = demo_fs\<lparr>files := demo_files(demo_ck_path \<mapsto> Checkpoint demo_ck)\<rparr>"

section \<open>Verification\<close>

subsection \<open>batchify\<close>

lemma fold_snoc_map: "fold (\<lambda>i data. data @ [f i]) is acc = acc @ map f is"
  by (induction "is" arbitrary: acc) auto

lemma py_range_nat: "py_range (int n) = map int [0..<n]"
  unfolding py_range_def
  by (induction n) (auto simp: upto_rec2)

lemma py_slice_nat:
  assumes "l \<le> h" and "h \<le> length xs"
  shows "py_slice xs (int l) (int h) = take (h - l) (drop l xs)"
  using assms unfolding py_slice_def Let_def
  by (simp add: min_def nat_diff_distrib' flip: of_nat_diff)

lemma py_slice_block:
  assumes "(i + 1) * b \<le> length xs"
  shows "py_slice xs (int i * int b) (int i * int b + int b) = take b (drop (i * b) xs)"
proof -
  have le: "i * b + b \<le> length xs" using assms by (simp add: algebra_simps)
  have "py_slice xs (int (i * b)) (int (i * b + b)) = take (i * b + b - i * b) (drop (i * b) xs)"
    by (rule py_slice_nat) (use le in simp_all)
  then show ?thesis by simp
qed

lemma batchify_nat:
  assumes "0 < b"
  shows "batchify f pairs (int b) vocab ev =
     Inr (map (\<lambda>i. f vocab (take b (drop (i * b) pairs)) ev) [0..<length pairs div b])"
proof -
  have d: "int (length pairs) div int b = int (length pairs div b)"
    by (simp add: zdiv_int)
  have blk: "(i + 1) * b \<le> length pairs" if "i < length pairs div b" for i
  proof -
    from that have "i + 1 \<le> length pairs div b" by simp
    then have "(i + 1) * b \<le> (length pairs div b) * b" by (rule mult_le_mono1)
    also have "\<dots> \<le> length pairs" by simp
    finally show "(i + 1) * b \<le> length pairs" .
  qed
  have m: "map (\<lambda>i. f vocab (py_slice pairs (i * int b) (i * int b + int b)) ev)
              (map int [0..<length pairs div b])
         = map (\<lambda>i. f vocab (take b (drop (i * b) pairs)) ev) [0..<length pairs div b]"
    unfolding map_map o_def
  proof (rule map_cong[OF refl])
    fix i assume "i \<in> set [0..<length pairs div b]"
    then have "i < length pairs div b" by simp
    then have "(i + 1) * b \<le> length pairs" by (rule blk)
    then show "f vocab (py_slice pairs (int i * int b) (int i * int b + int b)) ev
             = f vocab (take b (drop (i * b) pairs)) ev"
      by (simp only: py_slice_block)
  qed
  have "batchify f pairs (int b) vocab ev =
      Inr (fold (\<lambda>i data. data @ [f vocab (py_slice pairs (i * int b) (i * int b + int b)) ev])
             (py_range (int (length pairs div b))) [])"
    using assms by (simp add: batchify_def py_floordiv_def and_then_def d)
  also have "\<dots> = Inr (map (\<lambda>i. f vocab (py_slice pairs (i * int b) (i * int b + int b)) ev)
             (map int [0..<length pairs div b]))"
    by (simp only: fold_snoc_map py_range_nat append_Nil)
  finally show ?thesis by (simp only: m)
qed

lemma concat_blocks:
  "concat (map (\<lambda>i. take b (drop (i * b) xs)) [0..<n]) = take (n * b) xs"
proof (induction n)
  case 0
  show ?case by simp
next
  case (Suc n)
  have "take (n * b) xs @ take b (drop (n * b) xs) = take (n * b + b) xs"
    by (simp add: take_add)
  with Suc show ?case by (simp add: add.commute)
qed

text \<open>
  Claim C10. For every list of pairs and every batch size \<open>bsz > 0\<close>, \<^verbatim>\<open>batchify\<close> returns
  \<^verbatim>\<open>len(pairs) // bsz\<close> batches; batch \<open>i\<close> is built from the slice of the \<open>bsz\<close> pairs
  that start at position \<open>i * bsz\<close>, in their order; every slice is full; and the slices,
  put end to end, are the pairs without the last \<^verbatim>\<open>len(pairs) mod bsz\<close> of them, which
  therefore are in no batch.
\<close>

theorem batchify_drops_remainder:
  assumes "0 < bsz"
  shows "\<exists>data. batchify b2t pairs bsz vocab evaluation = Inr data
           \<and> int (length data) = int (length pairs) div bsz
           \<and> data = map (\<lambda>i. b2t vocab (take (nat bsz) (drop (i * nat bsz) pairs)) evaluation)
                       [0..<length data]
           \<and> list_all (\<lambda>i. length (take (nat bsz) (drop (i * nat bsz) pairs)) = nat bsz)
                       [0..<length data]
           \<and> concat (map (\<lambda>i. take (nat bsz) (drop (i * nat bsz) pairs)) [0..<length data])
               = take (length pairs - length pairs mod nat bsz) pairs"
proof -
  define b where "b = nat bsz"
  have b: "0 < b" "bsz = int b" using assms by (simp_all add: b_def)
  define n where "n = length pairs div b"
  define data where "data = map (\<lambda>i. b2t vocab (take b (drop (i * b) pairs)) evaluation) [0..<n]"
  have len: "length data = n" by (simp add: data_def)
  have run: "batchify b2t pairs bsz vocab evaluation = Inr data"
    unfolding b(2) data_def n_def by (rule batchify_nat[OF b(1)])
  have cnt: "int (length data) = int (length pairs) div bsz"
    by (simp add: len n_def b(2) zdiv_int)
  have full: "length (take b (drop (i * b) pairs)) = b" if "i < n" for i
  proof -
    from that have "i + 1 \<le> n" by simp
    then have "(i + 1) * b \<le> n * b" by (rule mult_le_mono1)
    also have "\<dots> \<le> length pairs" by (simp add: n_def)
    finally have "i * b + b \<le> length pairs" by (simp add: algebra_simps)
    then show ?thesis by simp
  qed
  have nb: "n * b = length pairs - length pairs mod b"
    by (simp add: n_def minus_mod_eq_div_mult)
  have cat: "concat (map (\<lambda>i. take b (drop (i * b) pairs)) [0..<n])
           = take (length pairs - length pairs mod b) pairs"
    by (simp only: concat_blocks nb)
  show ?thesis
    using run cnt cat full
    by (auto simp: len data_def b_def[symmetric] list_all_iff)
qed

theorem batchify_drops_remainder_witness:
  "batchify (\<lambda>v ps e. (v, ps, e)) [1, 2, 3, 4, 5, 6, 7 :: nat] 3 ''vocab'' False
     = Inr [(''vocab'', [1, 2, 3], False), (''vocab'', [4, 5, 6], False)]"
proof -
  let ?ps = "[1, 2, 3, 4, 5, 6, 7 :: nat]"
  have pos: "(0::int) < 3" by simp
  obtain data where
    run: "batchify (\<lambda>v ps e. (v, ps, e)) ?ps 3 ''vocab'' False = Inr data" and
    cnt: "int (length data) = int (length ?ps) div 3" and
    shape: "data = map (\<lambda>i. (''vocab'', take (nat 3) (drop (i * nat 3) ?ps), False)) [0..<length data]"
    using batchify_drops_remainder [OF pos, of "\<lambda>v ps e. (v, ps, e)" ?ps "''vocab''" False]
    by blast
  from cnt have "length data = 2" by simp
  with shape have "data = [(''vocab'', [1, 2, 3], False), (''vocab'', [4, 5, 6], False)]"
    by (simp add: upt_rec)
  with run show ?thesis by simp
qed

subsection \<open>adjust_learning_rate\<close>

lemma adjust_learning_rate_ok:
  assumes "d \<noteq> 0" and "q \<noteq> 0 \<or> 0 \<le> e div d"
  shows "adjust_learning_rate opt e r0 d q
       = Inr (opt\<lparr>param_groups := map (\<lambda>g. g\<lparr>lr := r0 * power_int q (e div d)\<rparr>) (param_groups opt)\<rparr>)"
  using assms
  by (auto simp: adjust_learning_rate_def and_then_def py_floordiv_def py_pow_def Let_def)

lemma epoch_begin_ok:
  assumes "lr_decay_epoch cfg \<noteq> 0"
    and "lr_decay_ratio cfg \<noteq> 0 \<or> 0 \<le> epoch s div lr_decay_epoch cfg"
  shows "epoch_begin cfg s =
     Inr (s\<lparr>networks :=
        \<lparr>encoder = module_train (encoder (networks s)),
         birnn_encoder = module_train (birnn_encoder (networks s)),
         review_decoder = module_train (review_decoder (networks s)),
         encoder_optimizer = (encoder_optimizer (networks s))\<lparr>param_groups :=
            map (\<lambda>g. g\<lparr>lr := learning_rate cfg * power_int (lr_decay_ratio cfg) (epoch s div lr_decay_epoch cfg)\<rparr>)
              (param_groups (encoder_optimizer (networks s)))\<rparr>,
         birnn_encoder_optimizer = (birnn_encoder_optimizer (networks s))\<lparr>param_groups :=
            map (\<lambda>g. g\<lparr>lr := learning_rate cfg * power_int (lr_decay_ratio cfg) (epoch s div lr_decay_epoch cfg)\<rparr>)
              (param_groups (birnn_encoder_optimizer (networks s)))\<rparr>,
         review_decoder_optimizer = (review_decoder_optimizer (networks s))\<lparr>param_groups :=
            map (\<lambda>g. g\<lparr>lr := learning_rate cfg * power_int (lr_decay_ratio cfg) (epoch s div lr_decay_epoch cfg)\<rparr>)
              (param_groups (review_decoder_optimizer (networks s)))\<rparr>\<rparr>\<rparr>)"
  unfolding epoch_begin_def Let_def
  by (simp only: adjust_learning_rate_ok[OF assms] and_then_def sum.case)




subsection \<open>train and evaluate compute the same loss\<close>

lemma zero_grad_fold_data:
  "map data (fold (\<lambda>i ps. if i < length ps
                            then ps[i := (ps ! i)\<lparr>grad := map_option zero_like (grad (ps ! i))\<rparr>]
                            else ps) is ps)
   = map data ps"
proof (induction "is" arbitrary: ps)
  case Nil
  show ?case by simp
next
  case (Cons i "is")
  show ?case
    by (simp add: Cons.IH map_update list_update_same_conv)
qed

lemma zero_grad_state_dict [simp]: "state_dict (zero_grad opt m) = state_dict m"
  by (simp add: state_dict_def zero_grad_def zero_grad_fold_data)

lemma zero_grad_training [simp]: "training (zero_grad opt m) = training m"
  by (simp add: zero_grad_def)

lemma zero_grad_n_layers [simp]: "mod_n_layers (zero_grad opt m) = mod_n_layers m"
  by (simp add: zero_grad_def)

lemma module_eval_simps [simp]:
  "state_dict (module_eval m) = state_dict m"
  "training (module_eval m) = False"
  "mod_n_layers (module_eval m) = mod_n_layers m"
  "mparams (module_eval m) = mparams m"
  by (simp_all add: module_eval_def state_dict_def)





subsection \<open>Gradient clipping\<close>









lemma train_steps_after_clipping:
  "snd (train env batch nets) =
     (case train_clipped env batch nets of (enc, bi, dec) \<Rightarrow>
        \<lparr>encoder = fst (optimizer_step (adam env) (encoder_optimizer nets) enc),
         birnn_encoder = fst (optimizer_step (adam env) (birnn_encoder_optimizer nets) bi),
         review_decoder = fst (optimizer_step (adam env) (review_decoder_optimizer nets) dec),
         encoder_optimizer = snd (optimizer_step (adam env) (encoder_optimizer nets) enc),
         birnn_encoder_optimizer = snd (optimizer_step (adam env) (birnn_encoder_optimizer nets) bi),
         review_decoder_optimizer = snd (optimizer_step (adam env) (review_decoder_optimizer nets) dec)\<rparr>)"
  by (cases batch) (simp add: train_def train_clipped_def Let_def split_beta)




subsection \<open>The epoch loop\<close>

lemma os_path_joion: "os_path_getattr ''joion'' = Inl AttributeError"
  by (simp add: os_path_getattr_def)

lemma epoch_decide_raises: "epoch_decide env cfg test_batches vl_loss s = Inl AttributeError"
  by (simp add: epoch_decide_def os_path_joion and_then_def)

lemma train_batch_keeps:
  "fsys (fst (train_batch env b acc)) = fsys (fst acc)"
  "best_val_loss (fst (train_batch env b acc)) = best_val_loss (fst acc)"
  "epoch (fst (train_batch env b acc)) = epoch (fst acc)"
  by (simp_all add: train_batch_def Let_def split_beta)

lemma fold_train_batch_keeps:
  "fsys (fst (fold (train_batch env) bs acc)) = fsys (fst acc)
   \<and> best_val_loss (fst (fold (train_batch env) bs acc)) = best_val_loss (fst acc)
   \<and> epoch (fst (fold (train_batch env) bs acc)) = epoch (fst acc)"
  by (induction bs arbitrary: acc) (simp_all add: train_batch_keeps)

lemma epoch_begin_keeps:
  assumes "epoch_begin cfg s = Inr s1"
  shows "fsys s1 = fsys s" and "best_val_loss s1 = best_val_loss s" and "epoch s1 = epoch s"
  using assms
  by (auto simp: epoch_begin_def and_then_def Let_def split: sum.splits)

lemma epoch_validate_keeps:
  assumes "epoch_validate env cfg training_batches val_batches s = Inr (s3, vl_loss)"
  shows "fsys s3 = fsys s \<and> best_val_loss s3 = best_val_loss s \<and> epoch s3 = epoch s"
proof -
  obtain s1 where b: "epoch_begin cfg s = Inr s1"
    using assms by (auto simp: epoch_validate_def and_then_def split: sum.splits)
  define s2 where "s2 = fst (fold (train_batch env) training_batches (s1, 0))"
  have k2: "fsys s2 = fsys s1" "best_val_loss s2 = best_val_loss s1" "epoch s2 = epoch s1"
    using fold_train_batch_keeps[of env training_batches "(s1, 0)"] by (simp_all add: s2_def)
  have "\<exists>n w. s3 = s2\<lparr>networks := n, writer := w\<rparr>"
    using assms b
    by (auto simp: epoch_validate_def and_then_def s2_def split_beta split: sum.splits)
  then obtain n w where "s3 = s2\<lparr>networks := n, writer := w\<rparr>" by blast
  then show ?thesis using k2 epoch_begin_keeps[OF b] by simp
qed

lemma epoch_iteration_raises:
  "\<exists>e. epoch_iteration env cfg training_batches val_batches test_batches s = Inl e"
  by (cases "epoch_validate env cfg training_batches val_batches s")
     (auto simp: epoch_iteration_def and_then_def epoch_decide_raises)

lemma epoch_loop_first_iteration:
  assumes "epoch_iteration env cfg training_batches val_batches test_batches s = Inl e"
  shows "epoch_loop env cfg training_batches val_batches test_batches s = Some (Inl e)"
  by (subst epoch_loop.simps) (simp add: assms)


lemma demo_train:
  "train demo_env demo_batch (demo_nets c stepped tr)
     = (if c = 1 then 5 / 2 else if c = 2 then 23 / 10 else 12 / 5, demo_nets (c + 1) True tr)"
  by (cases stepped)
     (simp_all add: train_def demo_env_def demo_batch_def demo_nets_def Let_def zero_grad_def
        state_dict_def accumulate_grad_def clip_grad_norm_def total_norm_def sq_sum_def
        tensor_norm_def tensor_add_def zero_like_def optimizer_step_def py_slice_def)

lemma demo_evaluate:
  "evaluate demo_env demo_batch (demo_nets c stepped tr)
     = (if c = 1 then 5 / 2 else if c = 2 then 23 / 10 else 12 / 5, demo_nets c stepped False)"
  by (simp add: evaluate_def demo_env_def demo_batch_def demo_nets_def Let_def module_eval_def
        state_dict_def py_slice_def)


lemma demo_epoch_begin:
  assumes "0 \<le> epoch s" and "epoch s < 10" and "networks s = demo_nets c stepped tr"
  shows "epoch_begin demo_cfg s = Inr (s\<lparr>networks := demo_nets c stepped True\<rparr>)"
proof -
  have d: "epoch s div 10 = 0" using assms(1,2) by simp
  have a: "lr_decay_epoch demo_cfg \<noteq> 0"
    "lr_decay_ratio demo_cfg \<noteq> 0 \<or> 0 \<le> epoch s div lr_decay_epoch demo_cfg"
    by (simp_all add: demo_cfg_def)
  show ?thesis
    unfolding epoch_begin_ok[OF a] assms(3)
    by (simp add: demo_cfg_def demo_nets_def module_train_def d)
qed

lemma demo_epoch_validate:
  assumes "0 \<le> epoch s" and "epoch s < 10" and "networks s = demo_nets c stepped tr"
  shows "\<exists>s'. epoch_validate demo_env demo_cfg [demo_batch] [demo_batch] s
               = Inr (s', if c + 1 = 1 then 5 / 2 else if c + 1 = 2 then 23 / 10 else 12 / 5)
            \<and> networks s' = demo_nets (c + 1) True False \<and> epoch s' = epoch s"
  by (simp add: epoch_validate_def demo_epoch_begin[OF assms] and_then_def train_batch_def
        demo_train demo_evaluate eval_batches_def mean_over_def Let_def)

lemma demo_validation_losses:
  "(\<exists>s1. epoch_validate demo_env demo_cfg [demo_batch] [demo_batch] demo_state = Inr (s1, 5 / 2)
     \<and> (\<exists>s2. epoch_validate demo_env demo_cfg [demo_batch] [demo_batch] (s1\<lparr>epoch := 1\<rparr>)
                = Inr (s2, 23 / 10)
     \<and> (\<exists>s3. epoch_validate demo_env demo_cfg [demo_batch] [demo_batch] (s2\<lparr>epoch := 2\<rparr>)
                = Inr (s3, 12 / 5))))"
proof -
  obtain s1 where 1: "epoch_validate demo_env demo_cfg [demo_batch] [demo_batch] demo_state
                      = Inr (s1, 5 / 2)"
    and n1: "networks s1 = demo_nets 1 True False"
    using demo_epoch_validate[of demo_state 0 False True] by (auto simp: demo_state_def)
  obtain s2 where 2: "epoch_validate demo_env demo_cfg [demo_batch] [demo_batch] (s1\<lparr>epoch := 1\<rparr>)
                      = Inr (s2, 23 / 10)"
    and n2: "networks s2 = demo_nets 2 True False"
    using demo_epoch_validate[of "s1\<lparr>epoch := 1\<rparr>" 1 True False] n1 by auto
  obtain s3 where 3: "epoch_validate demo_env demo_cfg [demo_batch] [demo_batch] (s2\<lparr>epoch := 2\<rparr>)
                      = Inr (s3, 12 / 5)"
    using demo_epoch_validate[of "s2\<lparr>epoch := 2\<rparr>" 2 True False] n2 by auto
  from 1 2 3 show ?thesis by blast
qed

lemma demo_first_epoch:
  "epoch_iteration demo_env demo_cfg [demo_batch] [demo_batch] [demo_batch] demo_state
     = Inl AttributeError"
proof -
  obtain s1 where "epoch_validate demo_env demo_cfg [demo_batch] [demo_batch] demo_state
                     = Inr (s1, 5 / 2)"
    using demo_validation_losses by blast
  then show ?thesis
    by (simp add: epoch_iteration_def and_then_def epoch_decide_raises)
qed

text \<open>
  Claim C1, on the code. Line 341 looks up \<^verbatim>\<open>os.path.joion\<close>, a name \<^verbatim>\<open>os.path\<close> does not
  define. The second part of the loop body therefore raises AttributeError whatever the
  validation loss and the recorded best are: the test of line 342 is never reached. When
  the first part of an epoch returns, the file system and the recorded best loss are as
  they were at the start of the epoch, and the epoch ends in AttributeError: no
  checkpoint is written, the best loss is not updated and the test batches are not
  evaluated, also when no best loss has been recorded yet.
\<close>

theorem epoch_raises_before_checkpoint:
  "epoch_decide env cfg test_batches vl_loss s3 = Inl AttributeError
   \<and> (epoch_validate env cfg training_batches val_batches s = Inr (s3, vl_loss) \<longrightarrow>
        epoch_iteration env cfg training_batches val_batches test_batches s = Inl AttributeError
        \<and> fsys s3 = fsys s \<and> best_val_loss s3 = best_val_loss s)"
proof (intro conjI impI)
  show "epoch_decide env cfg test_batches vl_loss s3 = Inl AttributeError"
    by (rule epoch_decide_raises)
next
  assume v: "epoch_validate env cfg training_batches val_batches s = Inr (s3, vl_loss)"
  show "epoch_iteration env cfg training_batches val_batches test_batches s = Inl AttributeError"
    by (simp add: epoch_iteration_def v and_then_def epoch_decide_raises)
  show "fsys s3 = fsys s" "best_val_loss s3 = best_val_loss s"
    using epoch_validate_keeps[OF v] by simp_all
qed

theorem epoch_raises_before_checkpoint_witness:
  "\<exists>s3. epoch_validate demo_env demo_cfg [demo_batch] [demo_batch] demo_state = Inr (s3, 5 / 2)
        \<and> epoch_iteration demo_env demo_cfg [demo_batch] [demo_batch] [demo_batch] demo_state
            = Inl AttributeError
        \<and> files (fsys s3) = Map.empty \<and> best_val_loss s3 = None"
proof -
  obtain s3 where v: "epoch_validate demo_env demo_cfg [demo_batch] [demo_batch] demo_state
                        = Inr (s3, 5 / 2)"
    using demo_validation_losses by blast
  have "epoch_iteration demo_env demo_cfg [demo_batch] [demo_batch] [demo_batch] demo_state
          = Inl AttributeError
        \<and> fsys s3 = fsys demo_state \<and> best_val_loss s3 = best_val_loss demo_state"
    using epoch_raises_before_checkpoint
      [of demo_env demo_cfg "[demo_batch]" "5 / 2" s3 "[demo_batch]" "[demo_batch]" demo_state] v
    by blast
  then show ?thesis
    using v by (auto simp: demo_state_def demo_fs_def)
qed

text \<open>
  Claim C2, on the code. Every pass through the loop body ends in an exception
  (AttributeError at line 341 when the validation loss has been computed), so the loop
  ends in its first pass, with that exception, and \<^verbatim>\<open>trainIters\<close> never returns normally.
  There is no second epoch, whatever the validation losses would have been.
\<close>

theorem epoch_loop_raises_in_first_epoch:
  "(\<exists>e. epoch_iteration env cfg training_batches val_batches test_batches s = Inl e
        \<and> epoch_loop env cfg training_batches val_batches test_batches s = Some (Inl e))
   \<and> (\<exists>e. trainIters env ld cfg w fs = Some (Inl e))"
proof
  obtain e where e: "epoch_iteration env cfg training_batches val_batches test_batches s = Inl e"
    using epoch_iteration_raises by blast
  then show "\<exists>e. epoch_iteration env cfg training_batches val_batches test_batches s = Inl e
        \<and> epoch_loop env cfg training_batches val_batches test_batches s = Some (Inl e)"
    using epoch_loop_first_iteration by blast
next
  show "\<exists>e. trainIters env ld cfg w fs = Some (Inl e)"
  proof (cases "trainIters_setup env ld cfg w fs")
    case (Inl e)
    then show ?thesis by (simp add: trainIters_def)
  next
    case (Inr r)
    obtain s0 tb vb teb where r: "r = (s0, tb, vb, teb)" by (cases r) auto
    obtain e where "epoch_iteration env cfg tb vb teb s0 = Inl e"
      using epoch_iteration_raises by blast
    then have "epoch_loop env cfg tb vb teb s0 = Some (Inl e)"
      by (rule epoch_loop_first_iteration)
    then show ?thesis by (simp add: trainIters_def Inr r)
  qed
qed

theorem epoch_loop_raises_in_first_epoch_witness:
  "epoch_loop demo_env demo_cfg [demo_batch] [demo_batch] [demo_batch] demo_state
     = Some (Inl AttributeError)
   \<and> (\<exists>s1 s2 s3.
         epoch_validate demo_env demo_cfg [demo_batch] [demo_batch] demo_state = Inr (s1, 5 / 2)
         \<and> epoch_validate demo_env demo_cfg [demo_batch] [demo_batch] (s1\<lparr>epoch := 1\<rparr>)
             = Inr (s2, 23 / 10)
         \<and> epoch_validate demo_env demo_cfg [demo_batch] [demo_batch] (s2\<lparr>epoch := 2\<rparr>)
             = Inr (s3, 12 / 5))"
proof -
  obtain e where
    it: "epoch_iteration demo_env demo_cfg [demo_batch] [demo_batch] [demo_batch] demo_state = Inl e"
    and lp: "epoch_loop demo_env demo_cfg [demo_batch] [demo_batch] [demo_batch] demo_state
               = Some (Inl e)"
    using epoch_loop_raises_in_first_epoch
      [of demo_env demo_cfg "[demo_batch]" "[demo_batch]" "[demo_batch]" demo_state]
    by blast
  from it have "e = AttributeError" by (simp add: demo_first_epoch)
  with lp show ?thesis using demo_validation_losses by blast
qed

subsection \<open>The batch caches\<close>

lemma str_nat_digits: "set (str_nat n) \<subseteq> set ''0123456789''"
proof (induction n rule: str_nat.induct)
  case (1 n)
  have d: "''0123456789'' ! k \<in> set ''0123456789''" if "k < 10" for k
    using that by (intro nth_mem) simp
  show ?case
  proof (cases "n < 10")
    case True
    then show ?thesis using d[of n] by (subst str_nat.simps) simp
  next
    case False
    have m: "n mod 10 < 10" by simp
    have "set (str_nat (n div 10)) \<subseteq> set ''0123456789''" using 1 False by simp
    then show ?thesis using False d[OF m] by (subst str_nat.simps) simp
  qed
qed

lemma py_str_no_sep: "CHR ''/'' \<notin> set (py_str n)"
  using str_nat_digits[of "nat n"] str_nat_digits[of "nat (- n)"]
  by (auto simp: py_str_def)

lemma dirname_join:
  assumes "CHR ''/'' \<notin> set name" and "dp \<noteq> []" and "last dp \<noteq> CHR ''/''"
  shows "os_path_join dp name = dp @ ''/'' @ name"
    and "os_path_dirname (os_path_join dp name) = dp"
proof -
  have nh: "name = [] \<or> hd name \<noteq> CHR ''/''"
    using assms(1) by (cases name) auto
  show j: "os_path_join dp name = dp @ ''/'' @ name"
    using nh assms(2,3) by (auto simp: os_path_join_def)
  have dw: "dropWhile (\<lambda>c. c \<noteq> CHR ''/'') (rev name @ CHR ''/'' # rev dp) = CHR ''/'' # rev dp"
  proof -
    have "dropWhile (\<lambda>c. c \<noteq> CHR ''/'') (rev name) = []"
      using assms(1) by (auto simp: dropWhile_eq_Nil_conv)
    then show ?thesis by (simp add: dropWhile_append3)
  qed
  have hd: "hd (rev dp) \<noteq> CHR ''/''" using assms(2,3) by (simp add: hd_rev)
  have dw2: "dropWhile (\<lambda>c. c = CHR ''/'') (rev dp) = rev dp"
    using hd assms(2) by (cases "rev dp") auto
  have ex: "\<not> list_all (\<lambda>c. c = CHR ''/'') dp"
  proof -
    have "last dp \<in> set dp" using assms(2) by simp
    then show ?thesis using assms(3) unfolding list_all_iff by blast
  qed
  show "os_path_dirname (os_path_join dp name) = dp"
    unfolding j os_path_dirname_def Let_def
  proof -
    have "rev (dp @ ''/'' @ name) = rev name @ CHR ''/'' # rev dp" by simp
    then have h: "rev (dropWhile (\<lambda>c. c \<noteq> CHR ''/'') (rev (dp @ ''/'' @ name))) = dp @ ''/''"
      by (simp only: dw) simp
    have na: "\<not> list_all (\<lambda>c. c = CHR ''/'') (dp @ ''/'')" using ex by simp
    have ne: "dp @ ''/'' \<noteq> []" by simp
    have r: "rev (dropWhile (\<lambda>c. c = CHR ''/'') (rev (dp @ ''/''))) = dp"
      by (simp add: dw2)
    show "(if rev (dropWhile (\<lambda>c. c \<noteq> CHR ''/'') (rev (dp @ ''/'' @ name))) \<noteq> [] \<and>
         \<not> list_all (\<lambda>c. c = CHR ''/'') (rev (dropWhile (\<lambda>c. c \<noteq> CHR ''/'') (rev (dp @ ''/'' @ name))))
      then rev (dropWhile (\<lambda>c. c = CHR ''/'') (rev (rev (dropWhile (\<lambda>c. c \<noteq> CHR ''/'') (rev (dp @ ''/'' @ name))))))
      else rev (dropWhile (\<lambda>c. c \<noteq> CHR ''/'') (rev (dp @ ''/'' @ name)))) = dp"
      unfolding h using na ne r by (simp only: if_True simp_thms)
  qed
qed

lemma join_relative:
  assumes "x \<noteq> []" and "hd x \<noteq> CHR ''/''"
  shows "os_path_join a x = os_path_join a [] @ x"
  using assms by (simp add: os_path_join_def)

lemma data_path_shape:
  "os_path_join sd ''batches'' \<noteq> []" "last (os_path_join sd ''batches'') \<noteq> CHR ''/''"
  by (simp_all add: os_path_join_def)

lemma cache_path_prefix:
  assumes "name \<noteq> []" and "hd name \<noteq> CHR ''/''"
  shows "cache_path dp name bsz = os_path_join dp [] @ name @ ''_'' @ py_str bsz @ ''.tar''"
proof -
  have "hd (name @ ''_'' @ py_str bsz @ ''.tar'') \<noteq> CHR ''/''" using assms by simp
  then show ?thesis
    unfolding cache_path_def using join_relative[of "name @ ''_'' @ py_str bsz @ ''.tar''" dp]
    by simp
qed

lemma cache_paths_distinct:
  "cache_path dp ''training_batches'' b \<noteq> cache_path dp ''val_batches'' b'"
  "cache_path dp ''training_batches'' b \<noteq> cache_path dp ''test_batches'' b'"
  "cache_path dp ''val_batches'' b \<noteq> cache_path dp ''test_batches'' b'"
  by (simp_all add: cache_path_prefix)

lemma cache_dirname:
  assumes "CHR ''/'' \<notin> set name" and "dp \<noteq> []" and "last dp \<noteq> CHR ''/''"
  shows "os_path_dirname (cache_path dp name bsz) = dp"
proof -
  have "CHR ''/'' \<notin> set (name @ ''_'' @ py_str bsz @ ''.tar'')"
    using assms(1) py_str_no_sep[of bsz] by simp
  then show ?thesis
    unfolding cache_path_def by (rule dirname_join(2)[OF _ assms(2,3)])
qed

lemma cached_batches_hit:
  assumes "files fs (cache_path dp name bsz) = Some (Batches bs)"
  shows "cached_batches b2t fs dp name bsz pairs voc ev = Inr (bs, fs)"
  using assms by (simp add: cached_batches_def torch_load_def)

lemma cached_batches_miss:
  assumes "files fs (cache_path dp name bsz) = None" and "bsz \<noteq> 0" and "isdir fs dp"
    and "CHR ''/'' \<notin> set name" and "dp \<noteq> []" and "last dp \<noteq> CHR ''/''"
  shows "\<exists>bs. batchify b2t pairs bsz voc ev = Inr bs
            \<and> cached_batches b2t fs dp name bsz pairs voc ev
                = Inr (bs, fs\<lparr>files := (files fs)(cache_path dp name bsz \<mapsto> Batches bs)\<rparr>)"
proof -
  obtain bs where b: "batchify b2t pairs bsz voc ev = Inr bs"
    using assms(2) by (simp add: batchify_def py_floordiv_def and_then_def)
  have s: "torch_save fs (Batches bs) (cache_path dp name bsz)
         = Inr (fs\<lparr>files := (files fs)(cache_path dp name bsz \<mapsto> Batches bs)\<rparr>)"
    using assms(3) by (simp add: torch_save_def cache_dirname[OF assms(4,5,6)])
  show ?thesis
    using assms(1) by (simp add: cached_batches_def torch_load_def b s and_then_def)
qed

lemma cached_batches_result:
  assumes "cached_batches b2t fs dp name bsz pairs voc ev = Inr (bs, fs')"
  shows "files fs' (cache_path dp name bsz) = Some (Batches bs) \<and> isdir fs' = isdir fs
       \<and> (\<forall>p. p \<noteq> cache_path dp name bsz \<longrightarrow> files fs' p = files fs p)"
proof (cases "files fs (cache_path dp name bsz)")
  case None
  then show ?thesis
    using assms
    by (auto simp: cached_batches_def torch_load_def torch_save_def and_then_def Let_def
          split: sum.splits if_splits)
next
  case (Some c)
  then show ?thesis
    using assms
    by (cases c) (auto simp: cached_batches_def torch_load_def)
qed

lemma cached_batches_total:
  assumes "isdir fs dp" and "bsz \<noteq> 0"
    and "CHR ''/'' \<notin> set name" and "dp \<noteq> []" and "last dp \<noteq> CHR ''/''"
    and "files fs (cache_path dp name bsz) = None
         \<or> (\<exists>bs. files fs (cache_path dp name bsz) = Some (Batches bs))"
  shows "\<exists>bs fs'. cached_batches b2t fs dp name bsz pairs voc ev = Inr (bs, fs')
           \<and> (case files fs (cache_path dp name bsz) of
                 None \<Rightarrow> batchify b2t pairs bsz voc ev = Inr bs
               | Some c \<Rightarrow> c = Batches bs)"
proof (cases "files fs (cache_path dp name bsz)")
  case None
  then show ?thesis
    using cached_batches_miss[OF None assms(2,1,3,4,5), of b2t pairs voc ev] by auto
next
  case (Some c)
  then obtain bs where c: "c = Batches bs" using assms(6) by auto
  show ?thesis
    using cached_batches_hit[of fs dp name bsz bs b2t pairs voc ev] Some c by simp
qed

lemma load_batches_total:
  fixes cfg :: config and fs :: "('a, 'os) filesystem"
  defines "dp \<equiv> os_path_join (save_dir cfg) ''batches''"
  assumes dir: "isdir fs dp" and bsz: "batch_size cfg \<noteq> 0"
    and f1: "files fs (cache_path dp ''training_batches'' (batch_size cfg)) = None
             \<or> (\<exists>bs. files fs (cache_path dp ''training_batches'' (batch_size cfg)) = Some (Batches bs))"
    and f2: "files fs (cache_path dp ''val_batches'' 10) = None
             \<or> (\<exists>bs. files fs (cache_path dp ''val_batches'' 10) = Some (Batches bs))"
    and f3: "files fs (cache_path dp ''test_batches'' 10) = None
             \<or> (\<exists>bs. files fs (cache_path dp ''test_batches'' 10) = Some (Batches bs))"
  shows "\<exists>tb vb teb fs'.
           load_batches ld cfg fs voc train_pairs valid_pairs test_pairs = Inr (tb, vb, teb, fs')
         \<and> (case files fs (cache_path dp ''training_batches'' (batch_size cfg)) of
               None \<Rightarrow> batchify (batch2TrainData ld) train_pairs (batch_size cfg) voc False = Inr tb
             | Some c \<Rightarrow> c = Batches tb)
         \<and> (case files fs (cache_path dp ''val_batches'' 10) of
               None \<Rightarrow> batchify (batch2TrainData ld) valid_pairs 10 voc True = Inr vb
             | Some c \<Rightarrow> c = Batches vb)
         \<and> (case files fs (cache_path dp ''test_batches'' 10) of
               None \<Rightarrow> batchify (batch2TrainData ld) test_pairs 10 voc True = Inr teb
             | Some c \<Rightarrow> c = Batches teb)
         \<and> files fs' (cache_path dp ''training_batches'' (batch_size cfg)) = Some (Batches tb)
         \<and> files fs' (cache_path dp ''val_batches'' 10) = Some (Batches vb)
         \<and> files fs' (cache_path dp ''test_batches'' 10) = Some (Batches teb)
         \<and> isdir fs' = isdir fs
         \<and> (\<forall>p. p \<noteq> cache_path dp ''training_batches'' (batch_size cfg)
                \<and> p \<noteq> cache_path dp ''val_batches'' 10 \<and> p \<noteq> cache_path dp ''test_batches'' 10
                \<longrightarrow> files fs' p = files fs p)"
proof -
  let ?b2t = "batch2TrainData ld"
  let ?P1 = "cache_path dp ''training_batches'' (batch_size cfg)"
  let ?P2 = "cache_path dp ''val_batches'' 10"
  let ?P3 = "cache_path dp ''test_batches'' 10"
  have dpn: "dp \<noteq> []" "last dp \<noteq> CHR ''/''"
    unfolding dp_def by (rule data_path_shape)+
  have ten: "(10::int) \<noteq> 0" by simp
  have d12: "?P2 \<noteq> ?P1" and d13: "?P3 \<noteq> ?P1" and d23: "?P3 \<noteq> ?P2"
    using cache_paths_distinct[of dp "batch_size cfg" 10] cache_paths_distinct(3)[of dp 10 10]
    by (simp_all add: eq_commute)
  obtain tb fs1 where
    r1: "cached_batches ?b2t fs dp ''training_batches'' (batch_size cfg) train_pairs voc False
           = Inr (tb, fs1)"
    and c1: "case files fs ?P1 of None \<Rightarrow> batchify ?b2t train_pairs (batch_size cfg) voc False = Inr tb
             | Some c \<Rightarrow> c = Batches tb"
    using cached_batches_total[OF dir bsz _ dpn f1, of ?b2t train_pairs voc False] by auto
  note k1 = cached_batches_result[OF r1]
  have dir1: "isdir fs1 dp" using k1 dir by simp
  have f2': "files fs1 ?P2 = files fs ?P2" using k1 d12 by simp
  obtain vb fs2 where
    r2: "cached_batches ?b2t fs1 dp ''val_batches'' 10 valid_pairs voc True = Inr (vb, fs2)"
    and c2: "case files fs1 ?P2 of None \<Rightarrow> batchify ?b2t valid_pairs 10 voc True = Inr vb
             | Some c \<Rightarrow> c = Batches vb"
    using cached_batches_total[OF dir1 ten _ dpn, of "''val_batches''" ?b2t valid_pairs voc True]
      f2 f2' by auto
  note k2 = cached_batches_result[OF r2]
  have dir2: "isdir fs2 dp" using k2 dir1 by simp
  have f3': "files fs2 ?P3 = files fs ?P3" using k1 k2 d13 d23 by simp
  obtain teb fs3 where
    r3: "cached_batches ?b2t fs2 dp ''test_batches'' 10 test_pairs voc True = Inr (teb, fs3)"
    and c3: "case files fs2 ?P3 of None \<Rightarrow> batchify ?b2t test_pairs 10 voc True = Inr teb
             | Some c \<Rightarrow> c = Batches teb"
    using cached_batches_total[OF dir2 ten _ dpn, of "''test_batches''" ?b2t test_pairs voc True]
      f3 f3' by auto
  note k3 = cached_batches_result[OF r3]
  have run: "load_batches ld cfg fs voc train_pairs valid_pairs test_pairs = Inr (tb, vb, teb, fs3)"
    unfolding load_batches_def Let_def dp_def[symmetric]
    by (simp add: r1 r2 r3 and_then_def)
  have a1: "files fs1 ?P1 = Some (Batches tb)" using k1 by simp
  have a2: "files fs2 ?P1 = files fs1 ?P1" using k2 d12[symmetric] by blast
  have a3: "files fs3 ?P1 = files fs2 ?P1" using k3 d13[symmetric] by blast
  have p1: "files fs3 ?P1 = Some (Batches tb)" by (simp only: a1 a2 a3)
  have b2: "files fs2 ?P2 = Some (Batches vb)" using k2 by simp
  have b3: "files fs3 ?P2 = files fs2 ?P2" using k3 d23[symmetric] by blast
  have p2: "files fs3 ?P2 = Some (Batches vb)" by (simp only: b2 b3)
  have p3: "files fs3 ?P3 = Some (Batches teb)" using k3 by simp
  have dirs: "isdir fs3 = isdir fs" using k1 k2 k3 by simp
  have rest: "\<forall>p. p \<noteq> ?P1 \<and> p \<noteq> ?P2 \<and> p \<noteq> ?P3 \<longrightarrow> files fs3 p = files fs p"
    using k1 k2 k3 by simp
  have c2': "case files fs ?P2 of None \<Rightarrow> batchify ?b2t valid_pairs 10 voc True = Inr vb
             | Some c \<Rightarrow> c = Batches vb"
    using c2 by (simp only: f2')
  have c3': "case files fs ?P3 of None \<Rightarrow> batchify ?b2t test_pairs 10 voc True = Inr teb
             | Some c \<Rightarrow> c = Batches teb"
    using c3 by (simp only: f3')
  show ?thesis
    apply (rule exI[of _ tb], rule exI[of _ vb], rule exI[of _ teb], rule exI[of _ fs3])
    apply (intro conjI)
    apply (rule run, rule c1, rule c2', rule c3', rule p1, rule p2, rule p3, rule dirs, rule rest)
    done
qed


lemma py_str_10: "py_str 10 = ''10''"
  by (simp add: py_str_def str_nat.simps)


lemma demo_data_path: "os_path_join (save_dir demo_cfg) ''batches'' = ''data/batches''"
  by (simp add: demo_cfg_def os_path_join_def)

lemma py_str_2: "py_str 2 = ''2''"
  by (simp add: py_str_def str_nat.simps)

lemma demo_cache_paths:
  "cache_path ''data/batches'' ''training_batches'' 2 = ''data/batches/training_batches_2.tar''"
  "cache_path ''data/batches'' ''val_batches'' 10 = ''data/batches/val_batches_10.tar''"
  "cache_path ''data/batches'' ''test_batches'' 10 = ''data/batches/test_batches_10.tar''"
  by (simp_all add: cache_path_def os_path_join_def py_str_2 py_str_10)

lemma demo_batchify:
  "batchify (batch2TrainData demo_loader) [1, 2, 3, 4, 5] 2 voc False
     = Inr [(3, 2, 0, 0, 0, 0), (7, 2, 0, 0, 0, 0)]"
  "batchify (batch2TrainData demo_loader) [1, 2, 3, 4, 5, 6, 7, 8, 9, 10] 10 voc True
     = Inr [(55, 10, 0, 0, 0, 1)]"
  "batchify (batch2TrainData demo_loader) [1, 2, 3, 4, 5, 6, 7, 8, 9, 10, 11, 12] 10 voc True
     = Inr [(55, 10, 0, 0, 0, 1)]"
proof -
  have two: "(0::nat) < 2" and ten: "(0::nat) < 10" by simp_all
  show "batchify (batch2TrainData demo_loader) [1, 2, 3, 4, 5] 2 voc False
     = Inr [(3, 2, 0, 0, 0, 0), (7, 2, 0, 0, 0, 0)]"
    using batchify_nat[OF two, of "batch2TrainData demo_loader" "[1, 2, 3, 4, 5]" voc False]
    by (simp add: demo_loader_def upt_rec)
  show "batchify (batch2TrainData demo_loader) [1, 2, 3, 4, 5, 6, 7, 8, 9, 10] 10 voc True
     = Inr [(55, 10, 0, 0, 0, 1)]"
    using batchify_nat[OF ten, of "batch2TrainData demo_loader" "[1, 2, 3, 4, 5, 6, 7, 8, 9, 10]" voc True]
    by (simp add: demo_loader_def upt_rec)
  show "batchify (batch2TrainData demo_loader) [1, 2, 3, 4, 5, 6, 7, 8, 9, 10, 11, 12] 10 voc True
     = Inr [(55, 10, 0, 0, 0, 1)]"
    using batchify_nat[OF ten, of "batch2TrainData demo_loader"
        "[1, 2, 3, 4, 5, 6, 7, 8, 9, 10, 11, 12]" voc True]
    by (simp add: demo_loader_def upt_rec)
qed





lemma setup_fails_with_load_batches:
  assumes "loadPrepareData ld (corpus cfg) (save_dir cfg) = (voc, trp, vap, tep)"
    and "load_batches ld cfg fs voc trp vap tep = Inl e"
  shows "trainIters env ld cfg w fs = Some (Inl e)"
  using assms by (simp add: trainIters_def trainIters_setup_def and_then_def)

text \<open>
  Claim C9, on the code. Only FileNotFoundError of the load is caught. With the batch
  size 0 and no training cache, \<^verbatim>\<open>batchify\<close> raises ZeroDivisionError in the handler; and
  when the directory \<^verbatim>\<open><save_dir>/batches\<close> does not exist, the load fails with
  FileNotFoundError, the batches are rebuilt, and \<^verbatim>\<open>torch.save\<close> in the handler raises
  FileNotFoundError. In both runs \<^verbatim>\<open>trainIters\<close> ends with the exception.
\<close>

theorem missing_cache_can_be_fatal:
  "(\<forall>w. trainIters demo_env demo_loader (demo_cfg\<lparr>batch_size := 0\<rparr>) w demo_fs
          = Some (Inl ZeroDivisionError))
   \<and> (\<forall>w. trainIters demo_env demo_loader demo_cfg w
            \<lparr>isdir = (\<lambda>p. p = ''data''), files = Map.empty\<rparr>
          = Some (Inl FileNotFoundError))"
proof (intro conjI allI)
  fix w
  have lp: "loadPrepareData demo_loader (corpus c) (save_dir c)
          = (\<lparr>n_words = 50, n_topics = 5, n_sketchs = 7\<rparr>,
             [1, 2, 3, 4, 5], [1, 2, 3, 4, 5, 6, 7, 8, 9, 10], [1, 2, 3, 4, 5, 6, 7, 8, 9, 10, 11, 12])"
    for c by (simp add: demo_loader_def)
  have "load_batches demo_loader (demo_cfg\<lparr>batch_size := 0\<rparr>) demo_fs
          \<lparr>n_words = 50, n_topics = 5, n_sketchs = 7\<rparr>
          [1, 2, 3, 4, 5] [1, 2, 3, 4, 5, 6, 7, 8, 9, 10] [1, 2, 3, 4, 5, 6, 7, 8, 9, 10, 11, 12]
        = Inl ZeroDivisionError"
    by (simp add: load_batches_def cached_batches_def torch_load_def demo_fs_def batchify_def
          py_floordiv_def and_then_def)
  then show "trainIters demo_env demo_loader (demo_cfg\<lparr>batch_size := 0\<rparr>) w demo_fs
          = Some (Inl ZeroDivisionError)"
    by (rule setup_fails_with_load_batches[OF lp])
  have dn: "os_path_dirname ''data/batches/training_batches_2.tar'' = ''data/batches''"
    using cache_dirname[of "''training_batches''" "''data/batches''" 2]
    by (simp add: demo_cache_paths)
  have "load_batches demo_loader demo_cfg \<lparr>isdir = (\<lambda>p. p = ''data''), files = Map.empty\<rparr>
          \<lparr>n_words = 50, n_topics = 5, n_sketchs = 7\<rparr>
          [1, 2, 3, 4, 5] [1, 2, 3, 4, 5, 6, 7, 8, 9, 10] [1, 2, 3, 4, 5, 6, 7, 8, 9, 10, 11, 12]
        = Inl FileNotFoundError"
    unfolding load_batches_def Let_def demo_data_path
    by (simp add: demo_cfg_def cached_batches_def demo_cache_paths torch_load_def torch_save_def
          dn batchify_def py_floordiv_def and_then_def)
  then show "trainIters demo_env demo_loader demo_cfg w
            \<lparr>isdir = (\<lambda>p. p = ''data''), files = Map.empty\<rparr>
          = Some (Inl FileNotFoundError)"
    by (rule setup_fails_with_load_batches[OF lp])
qed

text \<open>
  Claim C9, amended. When the batches directory exists and the configured batch size is
  not 0, a cache file that is missing is not fatal: for each of the three splits whose
  file is missing, the load raises FileNotFoundError, the batches of the split are built
  from its pairs by \<^verbatim>\<open>batchify\<close> (with the configured batch size for the training split
  and 10 for the other two, in evaluation mode for those), the list is written to the path
  the load was tried at, and the cache phase of \<^verbatim>\<open>trainIters\<close> returns with these lists. The
  directories and every other file are untouched.
\<close>

theorem missing_cache_regenerated:
  assumes "isdir fs (os_path_join (save_dir cfg) ''batches'')" and "batch_size cfg \<noteq> 0"
    and "files fs (cache_path (os_path_join (save_dir cfg) ''batches'') ''training_batches''
                     (batch_size cfg)) = None
         \<or> (\<exists>bs. files fs (cache_path (os_path_join (save_dir cfg) ''batches'') ''training_batches''
                     (batch_size cfg)) = Some (Batches bs))"
    and "files fs (cache_path (os_path_join (save_dir cfg) ''batches'') ''val_batches'' 10) = None
         \<or> (\<exists>bs. files fs (cache_path (os_path_join (save_dir cfg) ''batches'') ''val_batches'' 10)
                     = Some (Batches bs))"
    and "files fs (cache_path (os_path_join (save_dir cfg) ''batches'') ''test_batches'' 10) = None
         \<or> (\<exists>bs. files fs (cache_path (os_path_join (save_dir cfg) ''batches'') ''test_batches'' 10)
                     = Some (Batches bs))"
  shows "\<exists>tb vb teb fs'.
           load_batches ld cfg fs voc train_pairs valid_pairs test_pairs = Inr (tb, vb, teb, fs')
         \<and> (files fs (cache_path (os_path_join (save_dir cfg) ''batches'') ''training_batches''
                         (batch_size cfg)) = None \<longrightarrow>
              torch_load fs (cache_path (os_path_join (save_dir cfg) ''batches'') ''training_batches''
                               (batch_size cfg)) = Inl FileNotFoundError
            \<and> batchify (batch2TrainData ld) train_pairs (batch_size cfg) voc False = Inr tb
            \<and> files fs' (cache_path (os_path_join (save_dir cfg) ''batches'') ''training_batches''
                            (batch_size cfg)) = Some (Batches tb))
         \<and> (files fs (cache_path (os_path_join (save_dir cfg) ''batches'') ''val_batches'' 10) = None \<longrightarrow>
              torch_load fs (cache_path (os_path_join (save_dir cfg) ''batches'') ''val_batches'' 10)
                = Inl FileNotFoundError
            \<and> batchify (batch2TrainData ld) valid_pairs 10 voc True = Inr vb
            \<and> files fs' (cache_path (os_path_join (save_dir cfg) ''batches'') ''val_batches'' 10)
                = Some (Batches vb))
         \<and> (files fs (cache_path (os_path_join (save_dir cfg) ''batches'') ''test_batches'' 10) = None \<longrightarrow>
              torch_load fs (cache_path (os_path_join (save_dir cfg) ''batches'') ''test_batches'' 10)
                = Inl FileNotFoundError
            \<and> batchify (batch2TrainData ld) test_pairs 10 voc True = Inr teb
            \<and> files fs' (cache_path (os_path_join (save_dir cfg) ''batches'') ''test_batches'' 10)
                = Some (Batches teb))
         \<and> isdir fs' = isdir fs
         \<and> (\<forall>p. p \<noteq> cache_path (os_path_join (save_dir cfg) ''batches'') ''training_batches''
                       (batch_size cfg)
                \<and> p \<noteq> cache_path (os_path_join (save_dir cfg) ''batches'') ''val_batches'' 10
                \<and> p \<noteq> cache_path (os_path_join (save_dir cfg) ''batches'') ''test_batches'' 10
                \<longrightarrow> files fs' p = files fs p)"
proof -
  obtain tb vb teb fs' where
    run: "load_batches ld cfg fs voc train_pairs valid_pairs test_pairs = Inr (tb, vb, teb, fs')"
    and c1: "case files fs (cache_path (os_path_join (save_dir cfg) ''batches'') ''training_batches''
                             (batch_size cfg)) of
               None \<Rightarrow> batchify (batch2TrainData ld) train_pairs (batch_size cfg) voc False = Inr tb
             | Some c \<Rightarrow> c = Batches tb"
    and c2: "case files fs (cache_path (os_path_join (save_dir cfg) ''batches'') ''val_batches'' 10) of
               None \<Rightarrow> batchify (batch2TrainData ld) valid_pairs 10 voc True = Inr vb
             | Some c \<Rightarrow> c = Batches vb"
    and c3: "case files fs (cache_path (os_path_join (save_dir cfg) ''batches'') ''test_batches'' 10) of
               None \<Rightarrow> batchify (batch2TrainData ld) test_pairs 10 voc True = Inr teb
             | Some c \<Rightarrow> c = Batches teb"
    and p1: "files fs' (cache_path (os_path_join (save_dir cfg) ''batches'') ''training_batches''
                          (batch_size cfg)) = Some (Batches tb)"
    and p2: "files fs' (cache_path (os_path_join (save_dir cfg) ''batches'') ''val_batches'' 10)
               = Some (Batches vb)"
    and p3: "files fs' (cache_path (os_path_join (save_dir cfg) ''batches'') ''test_batches'' 10)
               = Some (Batches teb)"
    and dirs: "isdir fs' = isdir fs"
    and rest: "\<forall>p. p \<noteq> cache_path (os_path_join (save_dir cfg) ''batches'') ''training_batches''
                       (batch_size cfg)
                \<and> p \<noteq> cache_path (os_path_join (save_dir cfg) ''batches'') ''val_batches'' 10
                \<and> p \<noteq> cache_path (os_path_join (save_dir cfg) ''batches'') ''test_batches'' 10
                \<longrightarrow> files fs' p = files fs p"
    using load_batches_total[OF assms, of ld voc train_pairs valid_pairs test_pairs] by blast
  show ?thesis
    apply (rule exI[of _ tb], rule exI[of _ vb], rule exI[of _ teb], rule exI[of _ fs'])
    apply (intro conjI impI)
    using run apply assumption
    using c1 apply (simp add: torch_load_def)
    using c1 apply simp
    apply (rule p1)
    using c2 apply (simp add: torch_load_def)
    using c2 apply simp
    apply (rule p2)
    using c3 apply (simp add: torch_load_def)
    using c3 apply simp
    apply (rule p3)
    apply (rule dirs)
    apply (rule rest)
    done
qed

theorem missing_cache_regenerated_witness:
  "\<exists>fs'. load_batches demo_loader demo_cfg demo_fs \<lparr>n_words = 50, n_topics = 5, n_sketchs = 7\<rparr>
            [1, 2, 3, 4, 5] [1, 2, 3, 4, 5, 6, 7, 8, 9, 10] [1, 2, 3, 4, 5, 6, 7, 8, 9, 10, 11, 12]
          = Inr ([(3, 2, 0, 0, 0, 0), (7, 2, 0, 0, 0, 0)], [(55, 10, 0, 0, 0, 1)],
                 [(55, 10, 0, 0, 0, 1)], fs')
        \<and> files fs' ''data/batches/training_batches_2.tar''
            = Some (Batches [(3, 2, 0, 0, 0, 0), (7, 2, 0, 0, 0, 0)])
        \<and> files fs' ''data/batches/val_batches_10.tar'' = Some (Batches [(55, 10, 0, 0, 0, 1)])
        \<and> files fs' ''data/batches/test_batches_10.tar'' = Some (Batches [(55, 10, 0, 0, 0, 1)])"
proof -
  let ?voc = "\<lparr>n_words = 50, n_topics = 5, n_sketchs = 7\<rparr>"
  have bs: "batch_size demo_cfg = 2" by (simp add: demo_cfg_def)
  have none: "files demo_fs p = None" for p by (simp add: demo_fs_def)
  have h1: "isdir demo_fs (os_path_join (save_dir demo_cfg) ''batches'')"
    by (simp add: demo_data_path demo_fs_def)
  have h2: "batch_size demo_cfg \<noteq> 0" by (simp add: bs)
  obtain tb vb teb fs' where
    run: "load_batches demo_loader demo_cfg demo_fs ?voc
            [1, 2, 3, 4, 5] [1, 2, 3, 4, 5, 6, 7, 8, 9, 10] [1, 2, 3, 4, 5, 6, 7, 8, 9, 10, 11, 12]
          = Inr (tb, vb, teb, fs')"
    and c1: "batchify (batch2TrainData demo_loader) [1, 2, 3, 4, 5] 2 ?voc False = Inr tb"
    and c2: "batchify (batch2TrainData demo_loader) [1, 2, 3, 4, 5, 6, 7, 8, 9, 10] 10 ?voc True = Inr vb"
    and c3: "batchify (batch2TrainData demo_loader) [1, 2, 3, 4, 5, 6, 7, 8, 9, 10, 11, 12] 10 ?voc True
              = Inr teb"
    and p1: "files fs' ''data/batches/training_batches_2.tar'' = Some (Batches tb)"
    and p2: "files fs' ''data/batches/val_batches_10.tar'' = Some (Batches vb)"
    and p3: "files fs' ''data/batches/test_batches_10.tar'' = Some (Batches teb)"
    using missing_cache_regenerated[OF h1 h2, of demo_loader ?voc
        "[1, 2, 3, 4, 5]" "[1, 2, 3, 4, 5, 6, 7, 8, 9, 10]" "[1, 2, 3, 4, 5, 6, 7, 8, 9, 10, 11, 12]"]
    unfolding demo_data_path bs demo_cache_paths none
    by auto
  have tb: "tb = [(3, 2, 0, 0, 0, 0), (7, 2, 0, 0, 0, 0)]" using c1 unfolding demo_batchify by simp
  have vb: "vb = [(55, 10, 0, 0, 0, 1)]" using c2 unfolding demo_batchify by simp
  have teb: "teb = [(55, 10, 0, 0, 0, 1)]" using c3 unfolding demo_batchify by simp
  show ?thesis using run p1 p2 p3 unfolding tb vb teb by blast
qed

subsection \<open>Resuming from a checkpoint\<close>

lemma replay_eq:
  "replay l p is w =
     (if list_all (\<lambda>i. i < length p) is
      then Inr (w @ concat (map (\<lambda>i. [(''Train/loss'', l ! i, int i),
                                       (''Train/perplexity'', p ! i, int i)]) is))
      else Inl IndexError)"
  by (induction "is" arbitrary: w) auto

lemma replay_all:
  assumes "length l \<le> length p"
  shows "replay l p [0..<length l] w =
     Inr (w @ concat (map (\<lambda>i. [(''Train/loss'', l ! i, int i),
                                  (''Train/perplexity'', p ! i, int i)]) [0..<length l]))"
  using assms by (simp add: replay_eq list_all_iff)

lemma replay_returns:
  assumes "replay l p [0..<length l] w = Inr w'"
  shows "length l \<le> length p"
proof (rule ccontr)
  assume "\<not> length l \<le> length p"
  then have "length p \<in> set [0..<length l]" by simp
  then have "\<not> list_all (\<lambda>i. i < length p) [0..<length l]"
    unfolding list_all_iff by blast
  then show False using assms by (simp add: replay_eq)
qed

lemma map2_set_data:
  assumes "length ps = length ts"
  shows "map data (map2 (\<lambda>p t. p\<lparr>data := t\<rparr>) ps ts) = ts"
    and "map requires_grad (map2 (\<lambda>p t. p\<lparr>data := t\<rparr>) ps ts) = map requires_grad ps"
    and "map grad (map2 (\<lambda>p t. p\<lparr>data := t\<rparr>) ps ts) = map grad ps"
  using assms by (induction ps ts rule: list_induct2) auto

lemma load_state_dict_eq:
  "load_state_dict m sd = Inr m' \<longleftrightarrow>
     map shape sd = map (\<lambda>p. shape (data p)) (mparams m)
     \<and> m' = m\<lparr>mparams := map2 (\<lambda>p t. p\<lparr>data := t\<rparr>) (mparams m) sd\<rparr>"
  by (auto simp: load_state_dict_def)

lemma load_state_dict_result:
  assumes "load_state_dict m sd = Inr m'"
  shows "state_dict m' = sd" and "map requires_grad (mparams m') = map requires_grad (mparams m)"
    and "training m' = training m" and "mod_n_layers m' = mod_n_layers m"
proof -
  have sh: "map shape sd = map (\<lambda>p. shape (data p)) (mparams m)"
    and m': "m' = m\<lparr>mparams := map2 (\<lambda>p t. p\<lparr>data := t\<rparr>) (mparams m) sd\<rparr>"
    using assms by (simp_all add: load_state_dict_eq)
  have len: "length (mparams m) = length sd"
    using sh by (metis length_map)
  show "state_dict m' = sd"
    using map2_set_data(1)[OF len] by (simp add: m' state_dict_def)
  show "map requires_grad (mparams m') = map requires_grad (mparams m)"
    using map2_set_data(2)[OF len] by (simp add: m')
  show "training m' = training m" "mod_n_layers m' = mod_n_layers m"
    by (simp_all add: m')
qed

lemma map2_keep_params:
  assumes "length gs = length ss"
  shows "map lr (map2 (\<lambda>g saved. saved\<lparr>params := params g\<rparr>) gs ss) = map lr ss"
    and "map params (map2 (\<lambda>g saved. saved\<lparr>params := params g\<rparr>) gs ss) = map params gs"
  using assms by (induction gs ss rule: list_induct2) auto

lemma opt_load_state_dict_eq:
  "opt_load_state_dict opt sd = Inr opt' \<longleftrightarrow>
     map (\<lambda>g. length (params g)) (param_groups sd) = map (\<lambda>g. length (params g)) (param_groups opt)
     \<and> opt' = \<lparr>param_groups =
                  map2 (\<lambda>g saved. saved\<lparr>params := params g\<rparr>) (param_groups opt) (param_groups sd),
                opt_state = opt_state sd\<rparr>"
  by (auto simp: opt_load_state_dict_def)

lemma opt_load_state_dict_result:
  assumes "opt_load_state_dict opt sd = Inr opt'"
  shows "opt_state opt' = opt_state sd"
    and "map lr (param_groups opt') = map lr (param_groups sd)"
    and "map params (param_groups opt') = map params (param_groups opt)"
proof -
  have sh: "map (\<lambda>g. length (params g)) (param_groups sd)
          = map (\<lambda>g. length (params g)) (param_groups opt)"
    and o': "opt' = \<lparr>param_groups =
                  map2 (\<lambda>g saved. saved\<lparr>params := params g\<rparr>) (param_groups opt) (param_groups sd),
                opt_state = opt_state sd\<rparr>"
    using assms by (simp_all add: opt_load_state_dict_eq)
  have len: "length (param_groups opt) = length (param_groups sd)"
    using sh by (metis length_map)
  show "opt_state opt' = opt_state sd" by (simp add: o')
  show "map lr (param_groups opt') = map lr (param_groups sd)"
    using map2_keep_params(1)[OF len] by (simp add: o')
  show "map params (param_groups opt') = map params (param_groups opt)"
    using map2_keep_params(2)[OF len] by (simp add: o')
qed

lemma load_checkpoint_result:
  assumes "load_checkpoint fs f = Inr checkpoint" and "given_path f = Some path"
  shows "\<exists>ck. checkpoint = Some ck \<and> files fs path = Some (Checkpoint ck)"
proof (cases "files fs path")
  case None
  then show ?thesis
    using assms by (simp add: load_checkpoint_def torch_load_def and_then_def)
next
  case (Some c)
  then show ?thesis
    using assms by (cases c) (auto simp: load_checkpoint_def torch_load_def and_then_def)
qed

lemma restore_networks_result:
  assumes "restore_networks (Some ck) (enc, bi, dec) = Inr (enc', bi', dec')"
  shows "load_state_dict enc (ck_encoder ck) = Inr enc'"
    and "load_state_dict bi (ck_birnn_encoder ck) = Inr bi'"
    and "load_state_dict dec (ck_review_decoder ck) = Inr dec'"
  using assms by (auto simp: restore_networks_def and_then_def split: sum.splits)

lemma restore_optimizers_result:
  assumes "restore_optimizers (Some ck) n = Inr n'"
  shows "opt_load_state_dict (encoder_optimizer n) (ck_encoder_opt ck) = Inr (encoder_optimizer n')"
    and "opt_load_state_dict (birnn_encoder_optimizer n) (ck_birnn_encoder_opt ck)
           = Inr (birnn_encoder_optimizer n')"
    and "opt_load_state_dict (review_decoder_optimizer n) (ck_review_decoder_opt ck)
           = Inr (review_decoder_optimizer n')"
    and "encoder n' = encoder n" and "birnn_encoder n' = birnn_encoder n"
    and "review_decoder n' = review_decoder n"
  using assms by (auto simp: restore_optimizers_def and_then_def split: sum.splits)

lemma build_optimizers_result:
  assumes "build_optimizers s0 rate (enc, bi, dec) = Inr n"
  shows "encoder n = enc" and "birnn_encoder n = bi" and "review_decoder n = dec"
    and "optim_Adam s0 enc rate = Inr (encoder_optimizer n)"
    and "optim_Adam s0 bi rate = Inr (birnn_encoder_optimizer n)"
    and "optim_Adam s0 dec rate = Inr (review_decoder_optimizer n)"
  using assms by (auto simp: build_optimizers_def and_then_def split: sum.splits)

lemma restore_training_result:
  assumes "restore_training (Some ck) s0 = Inr s"
  shows "step s = ck_step ck" and "epoch s = ck_epoch ck + 1"
    and "loss_hist s = ck_loss ck" and "perplexity s = ck_plt ck"
    and "length (ck_loss ck) \<le> length (ck_plt ck)"
    and "writer s = writer s0 @ concat (map (\<lambda>i. [(''Train/loss'', ck_loss ck ! i, int i),
                                    (''Train/perplexity'', ck_plt ck ! i, int i)])
                                [0..<length (ck_loss ck)])"
    and "networks s = networks s0" and "fsys s = fsys s0" and "best_val_loss s = best_val_loss s0"
proof -
  obtain w where r: "replay (ck_loss ck) (ck_plt ck) [0..<length (ck_loss ck)] (writer s0) = Inr w"
    and s: "s = s0\<lparr>step := ck_step ck, epoch := ck_epoch ck + 1, perplexity := ck_plt ck,
                   loss_hist := ck_loss ck, writer := w\<rparr>"
    using assms by (auto simp: restore_training_def and_then_def split: sum.splits)
  show len: "length (ck_loss ck) \<le> length (ck_plt ck)" by (rule replay_returns[OF r])
  show "step s = ck_step ck" "epoch s = ck_epoch ck + 1" "loss_hist s = ck_loss ck"
    "perplexity s = ck_plt ck" "networks s = networks s0" "fsys s = fsys s0"
    "best_val_loss s = best_val_loss s0"
    by (simp_all add: s)
  show "writer s = writer s0 @ concat (map (\<lambda>i. [(''Train/loss'', ck_loss ck ! i, int i),
                                    (''Train/perplexity'', ck_plt ck ! i, int i)])
                                [0..<length (ck_loss ck)])"
    using r by (simp add: s replay_all[OF len])
qed

subsection \<open>Frozen parameters\<close>

lemma zero_grad_fold_flags:
  "map requires_grad (fold (\<lambda>i ps. if i < length ps
                            then ps[i := (ps ! i)\<lparr>grad := map_option zero_like (grad (ps ! i))\<rparr>]
                            else ps) is ps)
   = map requires_grad ps"
proof (induction "is" arbitrary: ps)
  case Nil
  show ?case by simp
next
  case (Cons i "is")
  show ?case
    by (simp add: Cons.IH map_update list_update_same_conv)
qed

lemma zero_grad_flags [simp]:
  "map requires_grad (mparams (zero_grad opt m)) = map requires_grad (mparams m)"
  by (simp add: zero_grad_def zero_grad_fold_flags)

lemma zero_grad_data [simp]: "map data (mparams (zero_grad opt m)) = map data (mparams m)"
  by (simp add: zero_grad_def zero_grad_fold_data)

lemma accumulate_grad_keeps [simp]:
  "map requires_grad (mparams (accumulate_grad g m)) = map requires_grad (mparams m)"
  "map data (mparams (accumulate_grad g m)) = map data (mparams m)"
proof -
  have a: "map requires_grad (map (\<lambda>(i, p). if requires_grad p
                then (case g i of None \<Rightarrow> p
                      | Some t \<Rightarrow> p\<lparr>grad := Some (case grad p of None \<Rightarrow> t | Some t0 \<Rightarrow> tensor_add t0 t)\<rparr>)
                else p) (enumerate k ps)) = map requires_grad ps" for k ps
    by (induction ps arbitrary: k) (auto split: option.splits)
  have b: "map data (map (\<lambda>(i, p). if requires_grad p
                then (case g i of None \<Rightarrow> p
                      | Some t \<Rightarrow> p\<lparr>grad := Some (case grad p of None \<Rightarrow> t | Some t0 \<Rightarrow> tensor_add t0 t)\<rparr>)
                else p) (enumerate k ps)) = map data ps" for k ps
    by (induction ps arbitrary: k) (auto split: option.splits)
  show "map requires_grad (mparams (accumulate_grad g m)) = map requires_grad (mparams m)"
    using a[of 0 "mparams m"] by (simp add: accumulate_grad_def)
  show "map data (mparams (accumulate_grad g m)) = map data (mparams m)"
    using b[of 0 "mparams m"] by (simp add: accumulate_grad_def)
qed

lemma clip_grad_norm_keeps [simp]:
  "map requires_grad (mparams (snd (clip_grad_norm sel m c))) = map requires_grad (mparams m)"
  "map data (mparams (snd (clip_grad_norm sel m c))) = map data (mparams m)"
  by (simp_all add: clip_grad_norm_def Let_def o_def cong: map_cong)

lemma step_params_keeps:
  assumes "\<forall>i\<in>set is. i < length ps \<longrightarrow> requires_grad (ps ! i)"
  shows "map requires_grad (fst (step_params upd rate is (ps, s))) = map requires_grad ps
       \<and> (\<forall>j < length ps. \<not> requires_grad (ps ! j) \<longrightarrow>
             data (fst (step_params upd rate is (ps, s)) ! j) = data (ps ! j))"
  using assms
proof (induction "is" arbitrary: ps s)
  case Nil
  show ?case by simp
next
  case (Cons i "is")
  show ?case
  proof (cases "i < length ps \<and> grad (ps ! i) \<noteq> None")
    case False
    then have "step_params upd rate (i # is) (ps, s) = step_params upd rate is (ps, s)"
      by (auto split: option.splits)
    then show ?thesis using Cons.IH[of ps s] Cons.prems by simp
  next
    case True
    then obtain g where g: "grad (ps ! i) = Some g" and i: "i < length ps" by auto
    obtain d s' where u: "upd rate s i (data (ps ! i)) g = (d, s')" by (cases "upd rate s i (data (ps ! i)) g")
    let ?ps = "ps[i := (ps ! i)\<lparr>data := d\<rparr>]"
    have st: "step_params upd rate (i # is) (ps, s) = step_params upd rate is (?ps, s')"
      using g i u by simp
    have rg: "requires_grad (ps ! i)" using Cons.prems i by simp
    have fl: "map requires_grad ?ps = map requires_grad ps"
      using i by (simp add: map_update list_update_same_conv)
    have nth: "requires_grad (?ps ! j) = requires_grad (ps ! j)" if "j < length ps" for j
      using that by (cases "j = i") simp_all
    have pre: "\<forall>k\<in>set is. k < length ?ps \<longrightarrow> requires_grad (?ps ! k)"
      using Cons.prems nth by simp
    note ih = Cons.IH[OF pre, of s']
    have frozen: "data (?ps ! j) = data (ps ! j)" if "j < length ps" "\<not> requires_grad (ps ! j)" for j
      using that rg by (cases "j = i") auto
    show ?thesis
      unfolding st using ih fl nth frozen by simp
  qed
qed

lemma fold_step_params_keeps:
  assumes "list_all (\<lambda>g. list_all (\<lambda>i. i < length ps \<and> requires_grad (ps ! i)) (params g)) gs"
  shows "map requires_grad (fst (fold (\<lambda>g acc. step_params upd (lr g) (params g) acc) gs (ps, s)))
           = map requires_grad ps
       \<and> (\<forall>j < length ps. \<not> requires_grad (ps ! j) \<longrightarrow>
             data (fst (fold (\<lambda>g acc. step_params upd (lr g) (params g) acc) gs (ps, s)) ! j)
               = data (ps ! j))"
  using assms
proof (induction gs arbitrary: ps s)
  case Nil
  show ?case by simp
next
  case (Cons g gs)
  obtain ps' s' where st: "step_params upd (lr g) (params g) (ps, s) = (ps', s')"
    by (cases "step_params upd (lr g) (params g) (ps, s)")
  have g: "\<forall>i\<in>set (params g). i < length ps \<longrightarrow> requires_grad (ps ! i)"
    using Cons.prems by (simp add: list_all_iff)
  have k: "map requires_grad ps' = map requires_grad ps"
    and fr: "\<forall>j < length ps. \<not> requires_grad (ps ! j) \<longrightarrow> data (ps' ! j) = data (ps ! j)"
    using step_params_keeps[OF g, of upd "lr g" s] st by simp_all
  have len: "length ps' = length ps" using k by (metis length_map)
  have nth: "requires_grad (ps' ! j) = requires_grad (ps ! j)" if "j < length ps" for j
    using k that by (metis len nth_map)
  have pre: "list_all (\<lambda>g. list_all (\<lambda>i. i < length ps' \<and> requires_grad (ps' ! i)) (params g)) gs"
    using Cons.prems nth len by (simp add: list_all_iff)
  note ih = Cons.IH[OF pre, of s']
  show ?case
    using ih k fr nth len by (simp add: st)
qed

lemma optimizer_step_keeps:
  assumes "fits opt m"
  shows "map requires_grad (mparams (fst (optimizer_step upd opt m))) = map requires_grad (mparams m)"
    and "\<forall>j < length (mparams m). \<not> requires_grad (mparams m ! j) \<longrightarrow>
           data (mparams (fst (optimizer_step upd opt m)) ! j) = data (mparams m ! j)"
    and "param_groups (snd (optimizer_step upd opt m)) = param_groups opt"
  using fold_step_params_keeps[OF assms[unfolded fits_def], of upd "opt_state opt"]
  by (simp_all add: optimizer_step_def split_beta)

lemma fits_cong:
  assumes "map requires_grad (mparams m') = map requires_grad (mparams m)"
    and "param_groups opt' = param_groups opt"
  shows "fits opt' m' = fits opt m"
proof -
  have len: "length (mparams m') = length (mparams m)" using assms(1) by (metis length_map)
  have nth: "requires_grad (mparams m' ! j) = requires_grad (mparams m ! j)"
    if "j < length (mparams m)" for j
    using assms(1) that by (metis len nth_map)
  show ?thesis
    unfolding fits_def assms(2) len using nth by (auto simp: list_all_iff)
qed

lemma module_step_keeps:
  assumes "fits opt m"
  shows "map requires_grad
           (mparams (fst (optimizer_step upd opt
              (snd (clip_grad_norm requires_grad (accumulate_grad g (zero_grad opt m)) c)))))
         = map requires_grad (mparams m)"
    and "\<forall>j < length (mparams m). \<not> requires_grad (mparams m ! j) \<longrightarrow>
           data (mparams (fst (optimizer_step upd opt
              (snd (clip_grad_norm requires_grad (accumulate_grad g (zero_grad opt m)) c)))) ! j)
           = data (mparams m ! j)"
    and "param_groups (snd (optimizer_step upd opt
              (snd (clip_grad_norm requires_grad (accumulate_grad g (zero_grad opt m)) c))))
         = param_groups opt"
proof -
  let ?m2 = "snd (clip_grad_norm requires_grad (accumulate_grad g (zero_grad opt m)) c)"
  have fl: "map requires_grad (mparams ?m2) = map requires_grad (mparams m)" by simp
  have da: "map data (mparams ?m2) = map data (mparams m)" by simp
  have len: "length (mparams ?m2) = length (mparams m)" using fl by (metis length_map)
  have f2: "fits opt ?m2" using fits_cong[OF fl refl, of opt] assms by simp
  note k = optimizer_step_keeps[OF f2, of upd]
  show "map requires_grad (mparams (fst (optimizer_step upd opt ?m2))) = map requires_grad (mparams m)"
    using k(1) fl by simp
  show "param_groups (snd (optimizer_step upd opt ?m2)) = param_groups opt"
    by (rule k(3))
  show "\<forall>j < length (mparams m). \<not> requires_grad (mparams m ! j) \<longrightarrow>
           data (mparams (fst (optimizer_step upd opt ?m2)) ! j) = data (mparams m ! j)"
  proof (intro allI impI)
    fix j assume j: "j < length (mparams m)" and fr: "\<not> requires_grad (mparams m ! j)"
    have "requires_grad (mparams ?m2 ! j) = requires_grad (mparams m ! j)"
      using fl j len by (metis nth_map)
    then have "data (mparams (fst (optimizer_step upd opt ?m2)) ! j) = data (mparams ?m2 ! j)"
      using k(2) j len fr by simp
    also have "\<dots> = data (mparams m ! j)"
      using da j len by (metis nth_map)
    finally show "data (mparams (fst (optimizer_step upd opt ?m2)) ! j) = data (mparams m ! j)" .
  qed
qed

lemma train_keeps:
  assumes "nets_fit n"
  shows "nets_fit (snd (train env b n))"
    and "map requires_grad (mparams (encoder (snd (train env b n))))
           = map requires_grad (mparams (encoder n))"
    and "map requires_grad (mparams (birnn_encoder (snd (train env b n))))
           = map requires_grad (mparams (birnn_encoder n))"
    and "map requires_grad (mparams (review_decoder (snd (train env b n))))
           = map requires_grad (mparams (review_decoder n))"
    and "\<forall>j < length (mparams (encoder n)). \<not> requires_grad (mparams (encoder n) ! j) \<longrightarrow>
           data (mparams (encoder (snd (train env b n))) ! j) = data (mparams (encoder n) ! j)"
    and "\<forall>j < length (mparams (birnn_encoder n)). \<not> requires_grad (mparams (birnn_encoder n) ! j) \<longrightarrow>
           data (mparams (birnn_encoder (snd (train env b n))) ! j) = data (mparams (birnn_encoder n) ! j)"
    and "\<forall>j < length (mparams (review_decoder n)). \<not> requires_grad (mparams (review_decoder n) ! j) \<longrightarrow>
           data (mparams (review_decoder (snd (train env b n))) ! j) = data (mparams (review_decoder n) ! j)"
    and "param_groups (encoder_optimizer (snd (train env b n))) = param_groups (encoder_optimizer n)"
    and "param_groups (birnn_encoder_optimizer (snd (train env b n)))
           = param_groups (birnn_encoder_optimizer n)"
    and "param_groups (review_decoder_optimizer (snd (train env b n)))
           = param_groups (review_decoder_optimizer n)"
proof -
  have f: "fits (encoder_optimizer n) (encoder n)" "fits (birnn_encoder_optimizer n) (birnn_encoder n)"
    "fits (review_decoder_optimizer n) (review_decoder n)"
    using assms by (simp_all add: nets_fit_def)
  note e = module_step_keeps[OF f(1)] and b = module_step_keeps[OF f(2)]
    and d = module_step_keeps[OF f(3)]
  show 1: "map requires_grad (mparams (encoder (snd (train env b n))))
           = map requires_grad (mparams (encoder n))"
    unfolding train_steps_after_clipping train_clipped_def Let_def by (simp add: e(1))
  show 2: "map requires_grad (mparams (birnn_encoder (snd (train env b n))))
           = map requires_grad (mparams (birnn_encoder n))"
    unfolding train_steps_after_clipping train_clipped_def Let_def by (simp add: b(1))
  show 3: "map requires_grad (mparams (review_decoder (snd (train env b n))))
           = map requires_grad (mparams (review_decoder n))"
    unfolding train_steps_after_clipping train_clipped_def Let_def by (simp add: d(1))
  show "\<forall>j < length (mparams (encoder n)). \<not> requires_grad (mparams (encoder n) ! j) \<longrightarrow>
           data (mparams (encoder (snd (train env b n))) ! j) = data (mparams (encoder n) ! j)"
    unfolding train_steps_after_clipping train_clipped_def Let_def using e(2) by simp
  show "\<forall>j < length (mparams (birnn_encoder n)). \<not> requires_grad (mparams (birnn_encoder n) ! j) \<longrightarrow>
           data (mparams (birnn_encoder (snd (train env b n))) ! j) = data (mparams (birnn_encoder n) ! j)"
    unfolding train_steps_after_clipping train_clipped_def Let_def using b(2) by simp
  show "\<forall>j < length (mparams (review_decoder n)). \<not> requires_grad (mparams (review_decoder n) ! j) \<longrightarrow>
           data (mparams (review_decoder (snd (train env b n))) ! j) = data (mparams (review_decoder n) ! j)"
    unfolding train_steps_after_clipping train_clipped_def Let_def using d(2) by simp
  show 4: "param_groups (encoder_optimizer (snd (train env b n))) = param_groups (encoder_optimizer n)"
    unfolding train_steps_after_clipping train_clipped_def Let_def by (simp add: e(3))
  show 5: "param_groups (birnn_encoder_optimizer (snd (train env b n)))
           = param_groups (birnn_encoder_optimizer n)"
    unfolding train_steps_after_clipping train_clipped_def Let_def by (simp add: b(3))
  show 6: "param_groups (review_decoder_optimizer (snd (train env b n)))
           = param_groups (review_decoder_optimizer n)"
    unfolding train_steps_after_clipping train_clipped_def Let_def by (simp add: d(3))
  show "nets_fit (snd (train env b n))"
    unfolding nets_fit_def
    using fits_cong[OF 1 4] fits_cong[OF 2 5] fits_cong[OF 3 6] f by simp
qed

lemma train_steps_keeps:
  assumes "nets_fit n"
  shows "nets_fit (train_steps env bs n)
       \<and> map requires_grad (mparams (encoder (train_steps env bs n)))
           = map requires_grad (mparams (encoder n))
       \<and> map requires_grad (mparams (review_decoder (train_steps env bs n)))
           = map requires_grad (mparams (review_decoder n))
       \<and> (\<forall>j < length (mparams (encoder n)). \<not> requires_grad (mparams (encoder n) ! j) \<longrightarrow>
             data (mparams (encoder (train_steps env bs n)) ! j) = data (mparams (encoder n) ! j))
       \<and> (\<forall>j < length (mparams (review_decoder n)). \<not> requires_grad (mparams (review_decoder n) ! j) \<longrightarrow>
             data (mparams (review_decoder (train_steps env bs n)) ! j)
               = data (mparams (review_decoder n) ! j))
       \<and> param_groups (encoder_optimizer (train_steps env bs n)) = param_groups (encoder_optimizer n)
       \<and> param_groups (birnn_encoder_optimizer (train_steps env bs n))
           = param_groups (birnn_encoder_optimizer n)
       \<and> param_groups (review_decoder_optimizer (train_steps env bs n))
           = param_groups (review_decoder_optimizer n)"
  using assms
proof (induction bs arbitrary: n)
  case Nil
  then show ?case by (simp add: train_steps_def)
next
  case (Cons b bs)
  let ?n = "snd (train env b n)"
  note t = train_keeps[OF Cons.prems, of env b]
  note ih = Cons.IH[OF t(1)]
  have st: "train_steps env (b # bs) n = train_steps env bs ?n" by (simp add: train_steps_def)
  have le: "length (mparams (encoder ?n)) = length (mparams (encoder n))"
    using t(2) by (metis length_map)
  have ld: "length (mparams (review_decoder ?n)) = length (mparams (review_decoder n))"
    using t(4) by (metis length_map)
  have ne: "requires_grad (mparams (encoder ?n) ! j) = requires_grad (mparams (encoder n) ! j)"
    if "j < length (mparams (encoder n))" for j
    using t(2) that le by (metis nth_map)
  have nd: "requires_grad (mparams (review_decoder ?n) ! j) = requires_grad (mparams (review_decoder n) ! j)"
    if "j < length (mparams (review_decoder n))" for j
    using t(4) that ld by (metis nth_map)
  show ?case
    unfolding st using ih t le ld ne nd by simp
qed

lemma length_concat_blocks:
  assumes "\<forall>k < n. length (f k) = c"
  shows "length (concat (map f [0..<n])) = n * c"
  using assms by (induction n) simp_all

lemma drop_concat_blocks:
  assumes "\<forall>k < n. length (f k) = c" and "i \<le> n"
  shows "drop (i * c) (concat (map f [0..<n])) = concat (map f [i..<n])"
  using assms
proof (induction n)
  case 0
  then show ?case by simp
next
  case (Suc n)
  have pre: "\<forall>k < n. length (f k) = c" using Suc.prems(1) by simp
  have len: "length (concat (map f [0..<n])) = n * c"
    using pre by (rule length_concat_blocks)
  have split: "concat (map f [0..<Suc n]) = concat (map f [0..<n]) @ f n" by simp
  show ?case
  proof (cases "i \<le> n")
    case True
    have ih: "drop (i * c) (concat (map f [0..<n])) = concat (map f [i..<n])"
      using Suc.IH[OF pre True] .
    have le: "i * c \<le> n * c" using True by (rule mult_le_mono1)
    have "drop (i * c) (concat (map f [0..<n]) @ f n) = drop (i * c) (concat (map f [0..<n])) @ f n"
      using le len by (simp only: drop_append) simp
    also have "\<dots> = concat (map f [i..<n]) @ f n" by (simp only: ih)
    also have "\<dots> = concat (map f [i..<Suc n])" using True by simp
    finally show ?thesis by (simp only: split)
  next
    case False
    then have i: "i = Suc n" using Suc.prems(2) by simp
    have "length (concat (map f [0..<Suc n])) = Suc n * c"
      using Suc.prems(1) by (rule length_concat_blocks)
    then have "drop (Suc n * c) (concat (map f [0..<Suc n])) = []"
      by (intro drop_all) (simp only: order_refl)
    then show ?thesis unfolding i by simp
  qed
qed

lemma take_drop_concat_blocks:
  assumes "\<forall>k < n. length (f k) = c" and "i < n"
  shows "take c (drop (i * c) (concat (map f [0..<n]))) = f i"
proof -
  have le: "i \<le> n" using assms(2) by simp
  have "drop (i * c) (concat (map f [0..<n])) = concat (map f [i..<n])"
    using assms(1) le by (rule drop_concat_blocks)
  also have "\<dots> = f i @ concat (map f [Suc i..<n])"
    using assms(2) by (simp add: upt_conv_Cons)
  finally have d: "drop (i * c) (concat (map f [0..<n])) = f i @ concat (map f [Suc i..<n])" .
  have l: "length (f i) = c" using assms by simp
  show ?thesis unfolding d using l by simp
qed

lemma nth_concat_blocks:
  assumes "\<forall>k < n. length (f k) = c" and "i < n" and "j < c"
  shows "concat (map f [0..<n]) ! (i * c + j) = f i ! j"
proof -
  have l: "length (concat (map f [0..<n])) = n * c" using assms(1) by (rule length_concat_blocks)
  have "i \<le> n" using assms(2) by simp
  then have b: "i * c \<le> n * c" by (rule mult_le_mono1)
  have "concat (map f [0..<n]) ! (i * c + j) = drop (i * c) (concat (map f [0..<n])) ! j"
    using b by (simp only: l nth_drop)
  also have "\<dots> = take c (drop (i * c) (concat (map f [0..<n]))) ! j"
    using assms(3) by (simp only: nth_take)
  also have "\<dots> = f i ! j"
    by (simp only: take_drop_concat_blocks[OF assms(1,2)])
  finally show ?thesis .
qed

lemma identity_row:
  assumes "i < n"
  shows "map (\<lambda>j. if i = j then 1 else 0) [0..<n] @ replicate m (0::real)
       = map (\<lambda>j. if i = j then 1 else 0) [0..<n + m]"
proof -
  have "map (\<lambda>j. if i = j then 1 else (0::real)) [n..<n + m] = map (\<lambda>j. 0) [n..<n + m]"
    by (rule map_cong[OF refl]) (use assms in auto)
  also have "\<dots> = replicate m 0" by (simp add: map_replicate_const)
  finally have r: "map (\<lambda>j. if i = j then 1 else (0::real)) [n..<n + m] = replicate m 0" .
  have "[0..<n + m] = [0..<n] @ [n..<n + m]" by (rule upt_add_eq_append) simp
  then show ?thesis by (simp only: map_append r)
qed

lemma torch_cat1_matrices:
  "torch_cat1 (Tensor [r, c] xs) (Tensor [r, c'] ys) =
     Inr (Tensor [r, c + c']
            (concat (map (\<lambda>i. take c (drop (i * c) xs) @ take c' (drop (i * c') ys)) [0..<r])))"
  by (simp add: torch_cat1_def)

lemma rating_embedding_ok:
  assumes "0 \<le> n" and "n \<le> a"
  shows "rating_embedding n a =
     Inr \<lparr>num_embeddings = nat n, embedding_dim = nat a,
          weight = \<lparr>data = identity_then_zeros (nat n) (nat a), requires_grad = False, grad = None\<rparr>\<rparr>"
proof -
  define N where "N = nat n"
  define M where "M = nat (a - n)"
  have NM: "N + M = nat a" using assms by (simp add: N_def M_def)
  let ?row = "\<lambda>i. map (\<lambda>j. if i = j then 1 else (0::real)) [0..<N]"
  have eye: "torch_eye n = Inr (Tensor [N, N] (concat (map ?row [0..<N])))"
    using assms by (simp add: torch_eye_def N_def)
  have zeros: "torch_zeros n (a - n) = Inr (Tensor [N, M] (replicate (N * M) 0))"
    using assms by (simp add: torch_zeros_def N_def M_def)
  have blk: "take N (drop (i * N) (concat (map ?row [0..<N]))) @ take M (drop (i * M) (replicate (N * M) 0))
           = map (\<lambda>j. if i = j then 1 else 0) [0..<N + M]" if "i < N" for i
  proof -
    have 1: "take N (drop (i * N) (concat (map ?row [0..<N]))) = ?row i"
      by (rule take_drop_concat_blocks) (use that in simp_all)
    have "Suc i * M \<le> N * M" using that by (intro mult_le_mono1) simp
    then have "M \<le> N * M - i * M" by simp
    then have 2: "take M (drop (i * M) (replicate (N * M) (0::real))) = replicate M 0"
      by (simp add: min_def)
    show ?thesis unfolding 1 2 using that by (rule identity_row)
  qed
  have m: "map (\<lambda>i. take N (drop (i * N) (concat (map ?row [0..<N])))
                      @ take M (drop (i * M) (replicate (N * M) 0))) [0..<N]
         = map (\<lambda>i. map (\<lambda>j. if i = j then 1 else 0) [0..<N + M]) [0..<N]"
  proof (rule map_cong[OF refl])
    fix i assume "i \<in> set [0..<N]"
    then have "i < N" by simp
    then show "take N (drop (i * N) (concat (map ?row [0..<N])))
                 @ take M (drop (i * M) (replicate (N * M) 0))
             = map (\<lambda>j. if i = j then 1 else 0) [0..<N + M]"
      by (rule blk)
  qed
  have cat: "torch_cat1 (Tensor [N, N] (concat (map ?row [0..<N]))) (Tensor [N, M] (replicate (N * M) 0))
           = Inr (identity_then_zeros N (N + M))"
    unfolding torch_cat1_matrices identity_then_zeros_def by (simp only: m)
  have "rating_embedding n a = from_pretrained (identity_then_zeros N (N + M)) True"
    unfolding rating_embedding_def eye zeros and_then_def by (simp only: sum.case cat)
  also have "\<dots> = Inr \<lparr>num_embeddings = N, embedding_dim = N + M,
          weight = \<lparr>data = identity_then_zeros N (N + M), requires_grad = False, grad = None\<rparr>\<rparr>"
    by (simp add: from_pretrained_def dim_def identity_then_zeros_def)
  finally show ?thesis unfolding NM unfolding N_def .
qed

lemma torch_zeros_refused: "0 \<le> n \<Longrightarrow> a < n \<Longrightarrow> torch_zeros n (a - n) = Inl RuntimeError"
  by (simp add: torch_zeros_def)

lemma rating_embedding_refused:
  "n < 0 \<Longrightarrow> rating_embedding n a = Inl RuntimeError"
  "0 \<le> n \<Longrightarrow> a < n \<Longrightarrow> rating_embedding n a = Inl RuntimeError"
proof -
  show "n < 0 \<Longrightarrow> rating_embedding n a = Inl RuntimeError"
    by (simp add: rating_embedding_def torch_eye_def and_then_def)
  show "0 \<le> n \<Longrightarrow> a < n \<Longrightarrow> rating_embedding n a = Inl RuntimeError"
    unfolding rating_embedding_def
    by (simp only: torch_zeros_refused and_then_def sum.case split: sum.split)
       (simp add: torch_eye_def)
qed

lemma rating_embedding_result:
  assumes "rating_embedding n a = Inr e"
  shows "0 \<le> n \<and> n \<le> a
       \<and> e = \<lparr>num_embeddings = nat n, embedding_dim = nat a,
              weight = \<lparr>data = identity_then_zeros (nat n) (nat a), requires_grad = False, grad = None\<rparr>\<rparr>"
proof -
  have n0: "0 \<le> n"
  proof (rule ccontr)
    assume "\<not> 0 \<le> n"
    then have "rating_embedding n a = Inl RuntimeError" by (intro rating_embedding_refused(1)) simp
    then show False using assms by simp
  qed
  have na: "n \<le> a"
  proof (rule ccontr)
    assume "\<not> n \<le> a"
    then have "rating_embedding n a = Inl RuntimeError"
      using n0 by (intro rating_embedding_refused(2)) simp_all
    then show False using assms by simp
  qed
  have "rating_embedding n a = Inr \<lparr>num_embeddings = nat n, embedding_dim = nat a,
          weight = \<lparr>data = identity_then_zeros (nat n) (nat a), requires_grad = False, grad = None\<rparr>\<rparr>"
    by (rule rating_embedding_ok[OF n0 na])
  then show ?thesis using assms n0 na by simp
qed

lemma identity_then_zeros_entry:
  assumes "i < n" and "j < a"
  shows "entry (identity_then_zeros n a) i j = (if i = j then 1 else 0)"
proof -
  have "concat (map (\<lambda>i. map (\<lambda>j. if i = j then 1 else (0::real)) [0..<a]) [0..<n]) ! (i * a + j)
      = map (\<lambda>j. if i = j then 1 else 0) [0..<a] ! j"
    by (rule nth_concat_blocks) (use assms in simp_all)
  then show ?thesis using assms by (simp add: entry_def identity_then_zeros_def)
qed

lemma and_then_Inr:
  "and_then m f = Inr y \<longleftrightarrow> (\<exists>x. m = Inr x \<and> f x = Inr y)"
  by (cases m) (simp_all add: and_then_def)

lemma nn_Embedding_result:
  assumes "nn_Embedding num d w = Inr e"
  shows "requires_grad (weight e)" and "shape (data (weight e)) = [nat num, nat d]"
    and "grad (weight e) = None"
  using assms by (auto simp: nn_Embedding_def split: if_splits)

lemma aspect_embedding_result:
  assumes "aspect_embedding voc w ids = Inr e"
  shows "\<not> requires_grad (weight e)" and "num_embeddings e = nat (n_topics voc - 3)"
    and "embedding_dim e = 100" and "shape (data (weight e)) = [nat (n_topics voc - 3), 100]"
    and "np_array ids = Inr (data (weight e))"
proof -
  obtain e0 src t where
    e0: "nn_Embedding (n_topics voc - 3) 100 w = Inr e0" and
    src: "np_array ids = Inr src" and
    t: "tensor_copy (data (weight e0)) src = Inr t" and
    e: "e = e0\<lparr>weight := (weight e0)\<lparr>data := t, requires_grad := False\<rparr>\<rparr>"
    using assms unfolding aspect_embedding_def and_then_Inr by auto
  have ts: "t = src" and sh: "shape src = shape (data (weight e0))"
    using t by (auto simp: tensor_copy_def split: if_splits)
  have s0: "shape (data (weight e0)) = [nat (n_topics voc - 3), 100]"
    using nn_Embedding_result(2)[OF e0] by simp
  show "\<not> requires_grad (weight e)" by (simp add: e)
  show "num_embeddings e = nat (n_topics voc - 3)" "embedding_dim e = 100"
    using e0 by (auto simp: e nn_Embedding_def split: if_splits)
  show "shape (data (weight e)) = [nat (n_topics voc - 3), 100]"
    by (simp add: e ts sh s0)
  show "np_array ids = Inr (data (weight e))" by (simp add: e ts src)
qed

lemma build_networks_result:
  assumes "build_networks fs cfg voc w = Inr (enc, bi, dec)"
  shows "\<exists>(uemb::embedding) (iemb::embedding) remb (sk::embedding) (tp::embedding)
            (sk2::embedding) (wd::embedding) asp ids.
           rating_embedding (overall cfg) (attr_size cfg) = Inr remb
         \<and> load_ids fs (os_path_join (save_dir cfg) ''aspect_ids.pkl'') = Inr ids
         \<and> aspect_embedding voc (aspect_w w) ids = Inr asp
         \<and> requires_grad (weight uemb) \<and> requires_grad (weight iemb) \<and> requires_grad (weight sk)
         \<and> requires_grad (weight tp) \<and> requires_grad (weight sk2) \<and> requires_grad (weight wd)
         \<and> enc = \<lparr>mparams = [weight uemb, weight iemb, weight remb] @ encoder_own w,
                   training = True, mod_n_layers = n_layers cfg\<rparr>
         \<and> bi = \<lparr>mparams = weight sk # birnn_own w, training = True, mod_n_layers = n_layers cfg\<rparr>
         \<and> dec = \<lparr>mparams = [weight tp, weight sk2, weight wd, weight asp] @ decoder_own w,
                   training = True, mod_n_layers = n_layers cfg\<rparr>"
proof -
  have "\<exists>ids nu ni uemb iemb remb sk tp sk2 wd asp.
      load_ids fs (os_path_join (save_dir cfg) ''aspect_ids.pkl'') = Inr ids
    \<and> nn_Embedding nu (attr_size cfg) (uemb_w w) = Inr uemb
    \<and> nn_Embedding ni (attr_size cfg) (iemb_w w) = Inr iemb
    \<and> rating_embedding (overall cfg) (attr_size cfg) = Inr remb
    \<and> nn_Embedding (n_sketchs voc) (embed_size cfg) (sketch_w w) = Inr sk
    \<and> nn_Embedding (n_topics voc) (embed_size cfg) (topic_w w) = Inr tp
    \<and> nn_Embedding (n_sketchs voc) (embed_size cfg) (sketch2_w w) = Inr sk2
    \<and> nn_Embedding (n_words voc) (embed_size cfg) (word_w w) = Inr wd
    \<and> aspect_embedding voc (aspect_w w) ids = Inr asp
    \<and> enc = AttributeEncoder [uemb, iemb, remb] (n_layers cfg) (encoder_own w)
    \<and> bi = EncoderRNN sk (n_layers cfg) (birnn_own w)
    \<and> dec = ReviewAttnDecoderRNN tp sk2 wd asp (n_layers cfg) (decoder_own w)"
    using assms unfolding build_networks_def Let_def and_then_Inr
    apply (elim exE conjE)
    apply (simp only: sum.inject prod.inject)
    apply (elim conjE)
    apply (intro exI conjI)
    apply (rule refl | assumption | (rule sym, assumption))+
    done
  then obtain ids nu ni uemb iemb remb sk tp sk2 wd asp where
    ids: "load_ids fs (os_path_join (save_dir cfg) ''aspect_ids.pkl'') = Inr ids" and
    u: "nn_Embedding nu (attr_size cfg) (uemb_w w) = Inr uemb" and
    i: "nn_Embedding ni (attr_size cfg) (iemb_w w) = Inr iemb" and
    r: "rating_embedding (overall cfg) (attr_size cfg) = Inr remb" and
    s: "nn_Embedding (n_sketchs voc) (embed_size cfg) (sketch_w w) = Inr sk" and
    t: "nn_Embedding (n_topics voc) (embed_size cfg) (topic_w w) = Inr tp" and
    s2: "nn_Embedding (n_sketchs voc) (embed_size cfg) (sketch2_w w) = Inr sk2" and
    wd: "nn_Embedding (n_words voc) (embed_size cfg) (word_w w) = Inr wd" and
    a: "aspect_embedding voc (aspect_w w) ids = Inr asp" and
    res: "enc = AttributeEncoder [uemb, iemb, remb] (n_layers cfg) (encoder_own w)"
         "bi = EncoderRNN sk (n_layers cfg) (birnn_own w)"
         "dec = ReviewAttnDecoderRNN tp sk2 wd asp (n_layers cfg) (decoder_own w)"
    by blast
  show ?thesis
    apply (rule_tac x = uemb in exI, rule_tac x = iemb in exI, rule_tac x = remb in exI)
    apply (rule_tac x = sk in exI, rule_tac x = tp in exI, rule_tac x = sk2 in exI)
    apply (rule_tac x = wd in exI, rule_tac x = asp in exI, rule_tac x = ids in exI)
    using r ids a nn_Embedding_result(1)[OF u] nn_Embedding_result(1)[OF i]
      nn_Embedding_result(1)[OF s] nn_Embedding_result(1)[OF t] nn_Embedding_result(1)[OF s2]
      nn_Embedding_result(1)[OF wd] res
    apply (simp add: AttributeEncoder_def EncoderRNN_def ReviewAttnDecoderRNN_def)
    done
qed

lemma optim_Adam_fits:
  assumes "optim_Adam s0 m rate = Inr opt"
  shows "fits opt m"
    and "param_groups opt = [\<lparr>params = filter (\<lambda>i. requires_grad (mparams m ! i)) [0..<length (mparams m)],
                              lr = rate\<rparr>]"
  using assms by (auto simp: optim_Adam_def fits_def Let_def list_all_iff split: if_splits)

lemma trainIters_setup_result:
  assumes "trainIters_setup env ld cfg w fs = Inr (s, tb, vb, teb)"
  shows "\<exists>voc trp vap tep fs1 ms checkpoint ms' nets0 nets1 fs2.
           loadPrepareData ld (corpus cfg) (save_dir cfg) = (voc, trp, vap, tep)
         \<and> load_batches ld cfg fs voc trp vap tep = Inr (tb, vb, teb, fs1)
         \<and> build_networks fs1 cfg voc w = Inr ms
         \<and> load_checkpoint fs1 (loadFilename cfg) = Inr checkpoint
         \<and> restore_networks checkpoint ms = Inr ms'
         \<and> build_optimizers (adam_init env) (learning_rate cfg) ms' = Inr nets0
         \<and> restore_optimizers checkpoint nets0 = Inr nets1
         \<and> restore_training checkpoint
               \<lparr>networks = nets1, step = 0, epoch = 0, loss_hist = [], perplexity = [],
                best_val_loss = None, writer = [], fsys = fs2\<rparr> = Inr s"
proof -
  obtain voc trp vap tep where lp: "loadPrepareData ld (corpus cfg) (save_dir cfg) = (voc, trp, vap, tep)"
    by (cases "loadPrepareData ld (corpus cfg) (save_dir cfg)") auto
  obtain r where "load_batches ld cfg fs voc trp vap tep = Inr r"
  proof (cases "load_batches ld cfg fs voc trp vap tep")
    case (Inl e)
    then have False using assms by (simp add: trainIters_setup_def lp and_then_def)
    then show ?thesis ..
  next
    case (Inr r)
    then show ?thesis by (rule that)
  qed
  then obtain tb' vb' teb' fs1 where lb: "load_batches ld cfg fs voc trp vap tep = Inr (tb', vb', teb', fs1)"
    by (cases r) auto
  have rest: "and_then (build_networks fs1 cfg voc w) (\<lambda>ms.
     and_then (load_checkpoint fs1 (loadFilename cfg)) (\<lambda>checkpoint.
     and_then (restore_networks checkpoint ms) (\<lambda>ms'.
     and_then (build_optimizers (adam_init env) (learning_rate cfg) ms') (\<lambda>nets0.
     and_then (restore_optimizers checkpoint nets0) (\<lambda>nets1.
     let log_path = ''ckpt/'' @ corpus cfg;
         fs2 = (if \<not> os_path_exists fs1 log_path then os_makedirs fs1 log_path else fs1);
         s0 = \<lparr>networks = nets1, step = 0, epoch = 0, loss_hist = [], perplexity = [],
               best_val_loss = None, writer = [], fsys = fs2\<rparr>
     in and_then (restore_training checkpoint s0) (\<lambda>s.
          Inr (s, tb', vb', teb')))))))
     = Inr (s, tb, vb, teb)"
    using assms unfolding trainIters_setup_def lp by (simp add: lb and_then_def)
  then show ?thesis
    unfolding Let_def and_then_Inr
    apply (elim exE conjE)
    apply (simp only: sum.inject prod.inject)
    apply (elim conjE)
    apply (intro exI conjI)
    apply (rule lp)
    using lb apply simp
    apply (rule refl | assumption | (rule sym, assumption))+
    done
qed

lemma load_batches_keeps_other_files:
  assumes "load_batches ld cfg fs voc train_pairs valid_pairs test_pairs = Inr (tb, vb, teb, fs')"
    and "files fs' p = Some c" and "\<forall>bs. c \<noteq> Batches bs"
  shows "files fs p = Some c"
proof -
  define dp where "dp = os_path_join (save_dir cfg) ''batches''"
  let ?b2t = "batch2TrainData ld"
  obtain fs1 where
    r1: "cached_batches ?b2t fs dp ''training_batches'' (batch_size cfg) train_pairs voc False
           = Inr (tb, fs1)"
    using assms(1) unfolding load_batches_def Let_def dp_def[symmetric]
    by (auto simp: and_then_def split: sum.splits)
  obtain fs2 where
    r2: "cached_batches ?b2t fs1 dp ''val_batches'' 10 valid_pairs voc True = Inr (vb, fs2)"
    using assms(1) r1 unfolding load_batches_def Let_def dp_def[symmetric]
    by (auto simp: and_then_def split: sum.splits)
  have r3: "cached_batches ?b2t fs2 dp ''test_batches'' 10 test_pairs voc True = Inr (teb, fs')"
    using assms(1) r1 r2 unfolding load_batches_def Let_def dp_def[symmetric]
    by (auto simp: and_then_def split: sum.splits)
  note k1 = cached_batches_result[OF r1] and k2 = cached_batches_result[OF r2]
    and k3 = cached_batches_result[OF r3]
  have n3: "p \<noteq> cache_path dp ''test_batches'' 10" using k3 assms(2,3) by auto
  then have f2: "files fs2 p = Some c" using k3 assms(2) by simp
  have n2: "p \<noteq> cache_path dp ''val_batches'' 10" using k2 f2 assms(3) by auto
  then have f1: "files fs1 p = Some c" using k2 f2 by simp
  have n1: "p \<noteq> cache_path dp ''training_batches'' (batch_size cfg)" using k1 f1 assms(3) by auto
  then show ?thesis using k1 f1 by simp
qed

text \<open>
  Claim C7. When \<^verbatim>\<open>trainIters\<close> is given a checkpoint path (neither \<^verbatim>\<open>None\<close> nor empty) and
  reaches the epoch loop, the path holds a checkpoint and, at the first pass through the
  loop: the parameter values of the three networks are the stored ones; the state and
  the learning rates of the three optimizers are the stored ones; \<^verbatim>\<open>step\<close> is the stored
  step and \<^verbatim>\<open>epoch\<close> the stored epoch plus one; the loss and perplexity histories are the
  stored ones; and the events sent to the metrics writer so far are, for every position
  \<open>i\<close> of the stored loss history in order, the loss and the perplexity at \<open>i\<close>, with
  \<open>i\<close> as their step. The restoring steps return for a checkpoint that fits: the network
  states have the shapes of the networks' parameters, the optimizer states the group
  sizes of the optimizers, and the perplexity history is as long as the loss history.
\<close>

theorem resume_from_checkpoint:
  assumes "trainIters_setup env ld cfg w fs = Inr (s, tb, vb, teb)"
    and "given_path (loadFilename cfg) = Some path"
  shows "(\<exists>ck. files fs path = Some (Checkpoint ck)
          \<and> state_dict (encoder (networks s)) = ck_encoder ck
          \<and> state_dict (birnn_encoder (networks s)) = ck_birnn_encoder ck
          \<and> state_dict (review_decoder (networks s)) = ck_review_decoder ck
          \<and> opt_state (encoder_optimizer (networks s)) = opt_state (ck_encoder_opt ck)
          \<and> map lr (param_groups (encoder_optimizer (networks s)))
              = map lr (param_groups (ck_encoder_opt ck))
          \<and> opt_state (birnn_encoder_optimizer (networks s)) = opt_state (ck_birnn_encoder_opt ck)
          \<and> map lr (param_groups (birnn_encoder_optimizer (networks s)))
              = map lr (param_groups (ck_birnn_encoder_opt ck))
          \<and> opt_state (review_decoder_optimizer (networks s)) = opt_state (ck_review_decoder_opt ck)
          \<and> map lr (param_groups (review_decoder_optimizer (networks s)))
              = map lr (param_groups (ck_review_decoder_opt ck))
          \<and> step s = ck_step ck \<and> epoch s = ck_epoch ck + 1
          \<and> loss_hist s = ck_loss ck \<and> perplexity s = ck_plt ck
          \<and> writer s = concat (map (\<lambda>i. [(''Train/loss'', ck_loss ck ! i, int i),
                                           (''Train/perplexity'', ck_plt ck ! i, int i)])
                                  [0..<length (ck_loss ck)])
          \<and> best_val_loss s = None)
       \<and> (\<forall>(ck' :: 'os checkpoint) (m :: module). map shape (ck_encoder ck') = map (\<lambda>p. shape (data p)) (mparams m) \<longrightarrow>
             (\<exists>m'. load_state_dict m (ck_encoder ck') = Inr m'))
       \<and> (\<forall>(ck' :: 'os checkpoint) (opt :: 'os optimizer). map (\<lambda>g. length (params g)) (param_groups (ck_encoder_opt ck'))
                       = map (\<lambda>g. length (params g)) (param_groups opt) \<longrightarrow>
             (\<exists>opt'. opt_load_state_dict opt (ck_encoder_opt ck') = Inr opt'))
       \<and> (\<forall>(ck' :: 'os checkpoint) s0. length (ck_loss ck') \<le> length (ck_plt ck') \<longrightarrow>
             (\<exists>s'. restore_training (Some ck') (s0 :: ('a, 'os) tstate) = Inr s'))"
proof (intro conjI allI impI)
  obtain voc trp vap tep fs1 ms checkpoint ms' nets0 nets1 fs2 where
    lb: "load_batches ld cfg fs voc trp vap tep = Inr (tb, vb, teb, fs1)" and
    lc: "load_checkpoint fs1 (loadFilename cfg) = Inr checkpoint" and
    rn: "restore_networks checkpoint ms = Inr ms'" and
    bo: "build_optimizers (adam_init env) (learning_rate cfg) ms' = Inr nets0" and
    ro: "restore_optimizers checkpoint nets0 = Inr nets1" and
    rt: "restore_training checkpoint
               \<lparr>networks = nets1, step = 0, epoch = 0, loss_hist = [], perplexity = [],
                best_val_loss = None, writer = [], fsys = fs2\<rparr> = Inr s"
    using trainIters_setup_result[OF assms(1)] by blast
  obtain ck where ck: "checkpoint = Some ck" and f1: "files fs1 path = Some (Checkpoint ck)"
    using load_checkpoint_result[OF lc assms(2)] by blast
  have f: "files fs path = Some (Checkpoint ck)"
    by (rule load_batches_keeps_other_files[OF lb f1]) simp
  obtain enc bi dec where ms: "ms = (enc, bi, dec)" by (cases ms) auto
  obtain enc' bi' dec' where ms': "ms' = (enc', bi', dec')" by (cases ms') auto
  note n = restore_networks_result[OF rn[unfolded ck ms ms']]
  note b = build_optimizers_result[OF bo[unfolded ms']]
  note o = restore_optimizers_result[OF ro[unfolded ck]]
  note t = restore_training_result[OF rt[unfolded ck]]
  have nets: "networks s = nets1" using t(7) by simp
  have e: "encoder nets1 = enc'" "birnn_encoder nets1 = bi'" "review_decoder nets1 = dec'"
    using o(4,5,6) b(1,2,3) by simp_all
  show "\<exists>ck. files fs path = Some (Checkpoint ck)
          \<and> state_dict (encoder (networks s)) = ck_encoder ck
          \<and> state_dict (birnn_encoder (networks s)) = ck_birnn_encoder ck
          \<and> state_dict (review_decoder (networks s)) = ck_review_decoder ck
          \<and> opt_state (encoder_optimizer (networks s)) = opt_state (ck_encoder_opt ck)
          \<and> map lr (param_groups (encoder_optimizer (networks s)))
              = map lr (param_groups (ck_encoder_opt ck))
          \<and> opt_state (birnn_encoder_optimizer (networks s)) = opt_state (ck_birnn_encoder_opt ck)
          \<and> map lr (param_groups (birnn_encoder_optimizer (networks s)))
              = map lr (param_groups (ck_birnn_encoder_opt ck))
          \<and> opt_state (review_decoder_optimizer (networks s)) = opt_state (ck_review_decoder_opt ck)
          \<and> map lr (param_groups (review_decoder_optimizer (networks s)))
              = map lr (param_groups (ck_review_decoder_opt ck))
          \<and> step s = ck_step ck \<and> epoch s = ck_epoch ck + 1
          \<and> loss_hist s = ck_loss ck \<and> perplexity s = ck_plt ck
          \<and> writer s = concat (map (\<lambda>i. [(''Train/loss'', ck_loss ck ! i, int i),
                                           (''Train/perplexity'', ck_plt ck ! i, int i)])
                                  [0..<length (ck_loss ck)])
          \<and> best_val_loss s = None"
    apply (rule exI[of _ ck])
    apply (intro conjI)
    apply (rule f)
    apply (simp add: nets e load_state_dict_result(1)[OF n(1)])
    apply (simp add: nets e load_state_dict_result(1)[OF n(2)])
    apply (simp add: nets e load_state_dict_result(1)[OF n(3)])
    apply (simp add: nets opt_load_state_dict_result(1)[OF o(1)])
    apply (simp add: nets opt_load_state_dict_result(2)[OF o(1)])
    apply (simp add: nets opt_load_state_dict_result(1)[OF o(2)])
    apply (simp add: nets opt_load_state_dict_result(2)[OF o(2)])
    apply (simp add: nets opt_load_state_dict_result(1)[OF o(3)])
    apply (simp add: nets opt_load_state_dict_result(2)[OF o(3)])
    apply (rule t(1))
    apply (rule t(2))
    apply (rule t(3))
    apply (rule t(4))
    using t(6) apply simp
    using t(9) apply simp
    done
next
  fix ck' :: "'os checkpoint" and m :: module
  assume "map shape (ck_encoder ck') = map (\<lambda>p. shape (data p)) (mparams m)"
  then show "\<exists>m'. load_state_dict m (ck_encoder ck') = Inr m'"
    by (simp add: load_state_dict_def)
next
  fix ck' :: "'os checkpoint" and opt :: "'os optimizer"
  assume "map (\<lambda>g. length (params g)) (param_groups (ck_encoder_opt ck'))
            = map (\<lambda>g. length (params g)) (param_groups opt)"
  then show "\<exists>opt'. opt_load_state_dict opt (ck_encoder_opt ck') = Inr opt'"
    by (simp add: opt_load_state_dict_def)
next
  fix ck' :: "'os checkpoint" and s0 :: "('a, 'os) tstate"
  assume "length (ck_loss ck') \<le> length (ck_plt ck')"
  then show "\<exists>s'. restore_training (Some ck') s0 = Inr s'"
    by (simp add: restore_training_def replay_all and_then_def)
qed

lemma demo_build_networks:
  assumes "files fs1 ''data/aspect_ids.pkl''
             = Some (Pickled_ids [replicate 100 (1 / 2), replicate 100 (1 / 2)])"
    and "files fs1 ''data/user.pkl'' = Some (Pickled_dict [''u1'', ''u2'', ''u3''])"
    and "files fs1 ''data/item.pkl'' = Some (Pickled_dict [''i1'', ''i2'', ''i3'', ''i4''])"
    and "save_dir c = ''data''" and "attr_size c = 8" and "embed_size c = 8" and "overall c = 5"
    and "n_layers c = 2"
  shows "build_networks fs1 c demo_voc demo_weights =
     Inr (\<lparr>mparams = [\<lparr>data = Tensor [3, 8] (replicate 24 0), requires_grad = True, grad = None\<rparr>,
                       \<lparr>data = Tensor [4, 8] (replicate 32 0), requires_grad = True, grad = None\<rparr>,
                       \<lparr>data = identity_then_zeros 5 8, requires_grad = False, grad = None\<rparr>],
            training = True, mod_n_layers = 2\<rparr>,
          \<lparr>mparams = [\<lparr>data = Tensor [7, 8] (replicate 56 0), requires_grad = True, grad = None\<rparr>],
            training = True, mod_n_layers = 2\<rparr>,
          \<lparr>mparams = [\<lparr>data = Tensor [5, 8] (replicate 40 0), requires_grad = True, grad = None\<rparr>,
                       \<lparr>data = Tensor [7, 8] (replicate 56 0), requires_grad = True, grad = None\<rparr>,
                       \<lparr>data = Tensor [50, 8] (replicate 400 0), requires_grad = True, grad = None\<rparr>,
                       \<lparr>data = Tensor [2, 100] (replicate 100 (1 / 2) @ replicate 100 (1 / 2)),
                        requires_grad = False, grad = None\<rparr>],
            training = True, mod_n_layers = 2\<rparr>)"
proof -
  have p: "os_path_join ''data'' ''aspect_ids.pkl'' = ''data/aspect_ids.pkl''"
    "os_path_join ''data'' ''user.pkl'' = ''data/user.pkl''"
    "os_path_join ''data'' ''item.pkl'' = ''data/item.pkl''"
    by (simp_all add: os_path_join_def)
  have ids: "load_ids fs1 ''data/aspect_ids.pkl''
               = Inr [replicate 100 (1 / 2), replicate 100 (1 / 2)]"
    by (simp add: load_ids_def pickle_load_def assms(1) and_then_def)
  have u: "load_dict fs1 ''data/user.pkl'' = Inr [''u1'', ''u2'', ''u3'']"
    by (simp add: load_dict_def pickle_load_def assms(2) and_then_def)
  have i: "load_dict fs1 ''data/item.pkl'' = Inr [''i1'', ''i2'', ''i3'', ''i4'']"
    by (simp add: load_dict_def pickle_load_def assms(3) and_then_def)
  have r: "rating_embedding 5 8 =
     Inr \<lparr>num_embeddings = 5, embedding_dim = 8,
          weight = \<lparr>data = identity_then_zeros 5 8, requires_grad = False, grad = None\<rparr>\<rparr>"
    using rating_embedding_ok[of 5 8] by simp
  have a: "aspect_embedding demo_voc (replicate 200 0) [replicate 100 (1 / 2), replicate 100 (1 / 2)] =
     Inr \<lparr>num_embeddings = 2, embedding_dim = 100,
          weight = \<lparr>data = Tensor [2, 100] (replicate 100 (1 / 2) @ replicate 100 (1 / 2)),
                    requires_grad = False, grad = None\<rparr>\<rparr>"
    by (simp add: aspect_embedding_def demo_voc_def nn_Embedding_def np_array_def tensor_copy_def
          and_then_def)
  show ?thesis
    unfolding build_networks_def assms(4-8) p ids u i and_then_def Let_def
    by (simp add: r a[unfolded demo_voc_def] demo_voc_def demo_weights_def nn_Embedding_def
          AttributeEncoder_def EncoderRNN_def ReviewAttnDecoderRNN_def)
qed

lemma demo_loadPrepareData:
  "loadPrepareData demo_loader c d =
     (demo_voc, [1, 2, 3, 4, 5], [1, 2, 3, 4, 5, 6, 7, 8, 9, 10],
      [1, 2, 3, 4, 5, 6, 7, 8, 9, 10, 11, 12])"
  by (simp add: demo_loader_def demo_voc_def)

lemma demo_setup_phases:
  fixes fs :: "(real, unit) filesystem" and c :: config
  assumes c: "save_dir c = ''data''" "batch_size c = 2" "attr_size c = 8" "embed_size c = 8"
      "overall c = 5" "n_layers c = 2" "corpus c = ''demo''" "learning_rate c = 1 / 1000"
    and dir: "isdir fs ''data/batches''"
    and caches: "files fs ''data/batches/training_batches_2.tar'' = None"
      "files fs ''data/batches/val_batches_10.tar'' = None"
      "files fs ''data/batches/test_batches_10.tar'' = None"
    and pickles: "files fs ''data/aspect_ids.pkl''
                    = Some (Pickled_ids [replicate 100 (1 / 2), replicate 100 (1 / 2)])"
      "files fs ''data/user.pkl'' = Some (Pickled_dict [''u1'', ''u2'', ''u3''])"
      "files fs ''data/item.pkl'' = Some (Pickled_dict [''i1'', ''i2'', ''i3'', ''i4''])"
  shows "\<exists>tb vb teb fs1.
           load_batches demo_loader c fs demo_voc [1, 2, 3, 4, 5] [1, 2, 3, 4, 5, 6, 7, 8, 9, 10]
             [1, 2, 3, 4, 5, 6, 7, 8, 9, 10, 11, 12] = Inr (tb, vb, teb, fs1)
         \<and> build_networks fs1 c demo_voc demo_weights =
             Inr (\<lparr>mparams = [\<lparr>data = Tensor [3, 8] (replicate 24 0), requires_grad = True, grad = None\<rparr>,
                       \<lparr>data = Tensor [4, 8] (replicate 32 0), requires_grad = True, grad = None\<rparr>,
                       \<lparr>data = identity_then_zeros 5 8, requires_grad = False, grad = None\<rparr>],
                    training = True, mod_n_layers = 2\<rparr>,
                  \<lparr>mparams = [\<lparr>data = Tensor [7, 8] (replicate 56 0), requires_grad = True, grad = None\<rparr>],
                    training = True, mod_n_layers = 2\<rparr>,
                  \<lparr>mparams = [\<lparr>data = Tensor [5, 8] (replicate 40 0), requires_grad = True, grad = None\<rparr>,
                       \<lparr>data = Tensor [7, 8] (replicate 56 0), requires_grad = True, grad = None\<rparr>,
                       \<lparr>data = Tensor [50, 8] (replicate 400 0), requires_grad = True, grad = None\<rparr>,
                       \<lparr>data = Tensor [2, 100] (replicate 100 (1 / 2) @ replicate 100 (1 / 2)),
                        requires_grad = False, grad = None\<rparr>],
                    training = True, mod_n_layers = 2\<rparr>)
         \<and> (\<forall>p. p \<noteq> ''data/batches/training_batches_2.tar''
                \<and> p \<noteq> ''data/batches/val_batches_10.tar''
                \<and> p \<noteq> ''data/batches/test_batches_10.tar'' \<longrightarrow> files fs1 p = files fs p)"
proof -
  have dp: "os_path_join (save_dir c) ''batches'' = ''data/batches''"
    by (simp add: c os_path_join_def)
  have h1: "isdir fs (os_path_join (save_dir c) ''batches'')" unfolding dp by (rule dir)
  have h2: "batch_size c \<noteq> 0" by (simp add: c)
  obtain tb vb teb fs1 where
    run: "load_batches demo_loader c fs demo_voc [1, 2, 3, 4, 5] [1, 2, 3, 4, 5, 6, 7, 8, 9, 10]
             [1, 2, 3, 4, 5, 6, 7, 8, 9, 10, 11, 12] = Inr (tb, vb, teb, fs1)"
    and rest: "\<forall>p. p \<noteq> ''data/batches/training_batches_2.tar''
                \<and> p \<noteq> ''data/batches/val_batches_10.tar''
                \<and> p \<noteq> ''data/batches/test_batches_10.tar'' \<longrightarrow> files fs1 p = files fs p"
    using load_batches_total[OF h1 h2, of demo_loader demo_voc
        "[1, 2, 3, 4, 5]" "[1, 2, 3, 4, 5, 6, 7, 8, 9, 10]" "[1, 2, 3, 4, 5, 6, 7, 8, 9, 10, 11, 12]"]
    unfolding dp c(2) demo_cache_paths caches
    by auto
  have p1: "files fs1 ''data/aspect_ids.pkl''
              = Some (Pickled_ids [replicate 100 (1 / 2), replicate 100 (1 / 2)])"
    using rest pickles(1) by simp
  have p2: "files fs1 ''data/user.pkl'' = Some (Pickled_dict [''u1'', ''u2'', ''u3''])"
    using rest pickles(2) by simp
  have p3: "files fs1 ''data/item.pkl'' = Some (Pickled_dict [''i1'', ''i2'', ''i3'', ''i4''])"
    using rest pickles(3) by simp
  note b = demo_build_networks[OF p1 p2 p3 c(1,3,4,5,6)]
  show ?thesis
    apply (rule exI[of _ tb], rule exI[of _ vb], rule exI[of _ teb], rule exI[of _ fs1])
    apply (intro conjI)
    apply (rule run)
    apply (rule b)
    apply (rule rest)
    done
qed

end
